theory Spec2Isabelle
  imports Main "HOL-Library.Word" "HOL-Library.Monad_Syntax"
begin

unbundle bit_operations_syntax

section \<open>Machine types, memory and the card state\<close>

text \<open>
  The C code of \<^verbatim>\<open>openpgp-do.c\<close> works on bytes, half-words and 32-bit words, on pointers
  into the flash data pool and on a handful of global variables. Bytes are \<open>8 word\<close>,
  addresses are offsets (\<open>nat\<close>) from the start of the flash region, which is half-word
  aligned, so the parity of an offset is the parity of the address. A pointer is an
  \<open>addr option\<close>, \<open>None\<close> being \<^verbatim>\<open>NULL\<close>. Every function that reads or writes memory
  returns an \<open>option\<close>: \<open>None\<close> means that the C code left the modelled memory (an
  out-of-bounds access, a call through a null function pointer, or \<^verbatim>\<open>fatal ()\<close>), where the
  source fixes no behaviour.
\<close>

type_synonym u8 = "8 word"
type_synonym u16 = "16 word"
type_synonym u32 = "32 word"
type_synonym addr = nat

definition peek :: "u8 list \<Rightarrow> addr \<Rightarrow> u8 option" where
  "peek m a = (if a < length m then Some (m ! a) else None)"

definition peek_n :: "u8 list \<Rightarrow> addr \<Rightarrow> nat \<Rightarrow> u8 list option" where
  "peek_n m a n = (if a + n \<le> length m then Some (take n (drop a m)) else None)"

definition poke_n :: "u8 list \<Rightarrow> addr \<Rightarrow> u8 list \<Rightarrow> u8 list option" where
  "poke_n m a bs =
     (if a + length bs \<le> length m then Some (take a m @ bs @ drop (a + length bs) m)
      else None)"

text \<open>A half-word in memory, little-endian as on the target.\<close>

definition hw_bytes :: "u16 \<Rightarrow> u8 list" where
  "hw_bytes hw = [ucast hw, ucast (drop_bit 8 hw)]"

text \<open>
  Modelled from the spec: the status macros \<^verbatim>\<open>GPG_SUCCESS ()\<close>, \<^verbatim>\<open>GPG_MEMORY_FAILURE ()\<close>,
  \<^verbatim>\<open>GPG_SECURITY_FAILURE ()\<close>, \<^verbatim>\<open>GPG_NO_RECORD ()\<close> and \<^verbatim>\<open>GPG_ERROR ()\<close> come from
  \<^verbatim>\<open>gnuk.h\<close>, which is not part of the sources at hand. Section 7 of the spec names the
  four error kinds; the bytes of the error status words are not fixed there, so the
  response is kept symbolic: either one of the status macros ran last, or
  \<^verbatim>\<open>gpg_do_get_data\<close> completed a body ending in \<^verbatim>\<open>90 00\<close>.
\<close>

datatype status_word =
  SW_SUCCESS | SW_MEMORY_FAILURE | SW_SECURITY_FAILURE | SW_NO_RECORD | SW_ERROR

datatype response = No_response | Status status_word | Body "u8 list"

text \<open>
  Modelled from the spec: the access-control levels \<^verbatim>\<open>AC_ALWAYS\<close>, \<^verbatim>\<open>AC_NEVER\<close> and
  \<^verbatim>\<open>AC_ADMIN_AUTHORIZED\<close> are macros of \<^verbatim>\<open>gnuk.h\<close>; section 4.5 lists exactly these three.
\<close>

datatype ac = AC_ALWAYS | AC_NEVER | AC_ADMIN_AUTHORIZED

text \<open>
  The global variables of \<^verbatim>\<open>openpgp-do.c\<close> together with the memories they point into.
  \<open>flash\<close> is the data pool region and \<open>last_p\<close> its tail; \<open>key_slots\<close> is the key-slot
  arena; \<open>res\<close> holds the bytes of \<^verbatim>\<open>res_APDU\<close> below \<^verbatim>\<open>res_p\<close>; \<open>admin_authorized\<close> and
  \<open>pso_cds_authorized\<close> stand for the authentication status kept by the collaborator
  \<^verbatim>\<open>ac.c\<close>; \<open>keystring_md_pw3\<close> is the admin keystring global of \<^verbatim>\<open>openpgp.c\<close>.
\<close>

record card =
  flash :: "u8 list"
  last_p :: addr
  key_slots :: "u8 list option list"
  do_ptr :: "addr option list"
  pw_err_counter_p :: "addr option list"
  pw1_lifetime_p :: "addr option"
  digital_signature_counter :: u32
  data_objects_number_of_bytes :: u16
  num_prv_keys :: u8
  kd :: "u8 list"
  res :: "u8 list"
  res_APDU :: response
  admin_authorized :: bool
  pso_cds_authorized :: bool
  keystring_md_pw3 :: "u8 list"

text \<open>
  Collaborators and build-time configuration, none of which is part of the sources at
  hand; they are parameters of the model. \<open>aes_cfb128_enc key data\<close> stands for
  \<^verbatim>\<open>aes_setkey_enc\<close> with a 128-bit key followed by \<^verbatim>\<open>aes_crypt_cfb128\<close> in mode
  \<^verbatim>\<open>AES_ENCRYPT\<close> with an all-zero IV and offset 0, \<open>aes_cfb128_dec\<close> for the same in mode
  \<^verbatim>\<open>AES_DECRYPT\<close>. \<open>change_keystring\<close> stands for \<^verbatim>\<open>gpg_change_keystring\<close> of
  \<^verbatim>\<open>openpgp.c\<close>, \<open>key_content_len\<close> for the macro \<^verbatim>\<open>KEY_CONTENT_LEN\<close> (128 in section 3 of the
  spec), \<open>malloc_fails\<close> for an exhausted heap.
\<close>

record env =
  manufacturer_in_aid :: "u8 list"
  serial_number_in_aid :: "u8 list"
  max_cmd_apdu_size :: u16
  max_res_apdu_size :: u16
  gnuk_magic :: "u8 list"
  initial_pw1 :: "u8 list"
  aes_cfb128_enc :: "u8 list \<Rightarrow> u8 list \<Rightarrow> u8 list"
  aes_cfb128_dec :: "u8 list \<Rightarrow> u8 list \<Rightarrow> u8 list"
  sha1 :: "u8 list \<Rightarrow> u8 list"
  modulus_calc :: "u8 list \<Rightarrow> u8 list option"
  random_bytes_get :: "u8 list"
  get_random :: u32
  malloc_fails :: bool
  key_content_len :: nat
  change_keystring ::
    "card \<Rightarrow> int \<Rightarrow> u8 list \<Rightarrow> int \<Rightarrow> u8 list \<Rightarrow> (int \<times> card) option"

subsection \<open>Cell numbers\<close>

text \<open>
  Modelled from the spec: the \<^verbatim>\<open>NR_\<close> constants are macros of \<^verbatim>\<open>gnuk.h\<close>. Section 3 fixes
  \<open>0x01..0x7F\<close> for data objects, \<open>0x80..0xBF\<close> and \<open>0xC0..0xC3\<close> for the two counter
  cells and \<open>0xFF\<close> for \<^verbatim>\<open>NR_EMPTY\<close>. The catalog \<^verbatim>\<open>gpg_do_table\<close> of the source pairs
  \<^verbatim>\<open>GPG_DO_SEX\<close> .. \<^verbatim>\<open>GPG_DO_LANGUAGE\<close> with \<^verbatim>\<open>do_ptr[0]\<close> .. \<^verbatim>\<open>do_ptr[13]\<close>, and every access
  is \<^verbatim>\<open>do_ptr[nr - NR_DO__FIRST__]\<close>, which fixes the first fourteen numbers relative to
  \<^verbatim>\<open>NR_DO__FIRST__\<close>; the private keys and keystrings follow. The values of
  \<^verbatim>\<open>NR_BOOL_PW1_LIFETIME\<close> and \<^verbatim>\<open>NR_COUNTER_123\<close> are those of the upstream header.
\<close>

abbreviation "NR_DO_FIRST \<equiv> (0x01 :: u8)"
abbreviation "NR_DO_SEX \<equiv> (0x01 :: u8)"
abbreviation "NR_DO_FP_SIG \<equiv> (0x02 :: u8)"
abbreviation "NR_DO_FP_DEC \<equiv> (0x03 :: u8)"
abbreviation "NR_DO_FP_AUT \<equiv> (0x04 :: u8)"
abbreviation "NR_DO_CAFP_1 \<equiv> (0x05 :: u8)"
abbreviation "NR_DO_CAFP_2 \<equiv> (0x06 :: u8)"
abbreviation "NR_DO_CAFP_3 \<equiv> (0x07 :: u8)"
abbreviation "NR_DO_KGTIME_SIG \<equiv> (0x08 :: u8)"
abbreviation "NR_DO_KGTIME_DEC \<equiv> (0x09 :: u8)"
abbreviation "NR_DO_KGTIME_AUT \<equiv> (0x0a :: u8)"
abbreviation "NR_DO_LOGIN_DATA \<equiv> (0x0b :: u8)"
abbreviation "NR_DO_URL \<equiv> (0x0c :: u8)"
abbreviation "NR_DO_NAME \<equiv> (0x0d :: u8)"
abbreviation "NR_DO_LANGUAGE \<equiv> (0x0e :: u8)"
abbreviation "NR_DO_PRVKEY_SIG \<equiv> (0x0f :: u8)"
abbreviation "NR_DO_PRVKEY_DEC \<equiv> (0x10 :: u8)"
abbreviation "NR_DO_PRVKEY_AUT \<equiv> (0x11 :: u8)"
abbreviation "NR_DO_KEYSTRING_PW1 \<equiv> (0x12 :: u8)"
abbreviation "NR_DO_KEYSTRING_RC \<equiv> (0x13 :: u8)"
abbreviation "NR_DO_KEYSTRING_PW3 \<equiv> (0x14 :: u8)"
abbreviation "NR_DO_LAST \<equiv> (21 :: nat)"
abbreviation "NR_COUNTER_DS \<equiv> (0x80 :: u8)"
abbreviation "NR_COUNTER_DS_LSB \<equiv> (0xc0 :: u8)"
abbreviation "NR_BOOL_PW1_LIFETIME \<equiv> (0xf0 :: u8)"
abbreviation "NR_COUNTER_123 \<equiv> (0xfe :: u8)"
abbreviation "NR_EMPTY \<equiv> (0xff :: u8)"

abbreviation "PW_ERR_PW1 \<equiv> (0 :: u8)"
abbreviation "PW_ERR_RC \<equiv> (1 :: u8)"
abbreviation "PW_ERR_PW3 \<equiv> (2 :: u8)"

abbreviation "PASSWORD_ERRORS_MAX \<equiv> (3 :: int)"
abbreviation "PW_LEN_MAX \<equiv> (127 :: u8)"
abbreviation "SIZE_PW_STATUS_BYTES \<equiv> (7 :: u8)"
abbreviation "SIZE_FP \<equiv> (20 :: nat)"
abbreviation "SIZE_KGTIME \<equiv> (4 :: nat)"

text \<open>
  \<^verbatim>\<open>do_ptr[nr - NR_DO__FIRST__]\<close>: the index is computed in \<^verbatim>\<open>int\<close>; outside the array the
  access is out of bounds.
\<close>

definition do_index :: "u8 \<Rightarrow> nat option" where
  "do_index nr =
     (if unat NR_DO_FIRST \<le> unat nr \<and> unat nr - unat NR_DO_FIRST < NR_DO_LAST
      then Some (unat nr - unat NR_DO_FIRST) else None)"

definition do_ptr_get :: "card \<Rightarrow> nat \<Rightarrow> addr option option" where
  "do_ptr_get s i = (if i < length (do_ptr s) then Some (do_ptr s ! i) else None)"

definition do_ptr_set :: "card \<Rightarrow> nat \<Rightarrow> addr option \<Rightarrow> card option" where
  "do_ptr_set s i p =
     (if i < length (do_ptr s) then Some (s\<lparr>do_ptr := (do_ptr s)[i := p]\<rparr>) else None)"

subsection \<open>The flash driver\<close>

text \<open>
  Modelled from the spec: \<^verbatim>\<open>flash.c\<close> is not part of the sources at hand. Sections 3, 4.1
  and 6 describe it: the pool is an append-only log of cells; \<^verbatim>\<open>nv_append_cell\<close> returns
  a reference or fails when the pool is exhausted; a data-object cell is the header
  \<open>(nr, len)\<close>, the payload, and a pad byte when needed so that the next cell starts on an
  even address; release overwrites the two-byte header with \<open>0x0000\<close>;
  \<^verbatim>\<open>nv_put_data_internal (addr, u16)\<close> programs one half-word; \<^verbatim>\<open>nv_set_tail\<close> sets the tail.
  The pool ends where the modelled flash ends.
\<close>

definition flash_data_pool_allocate :: "card \<Rightarrow> nat \<Rightarrow> addr option \<times> card" where
  "flash_data_pool_allocate s size' =
     (let sz = size' + size' mod 2 in
      if last_p s + sz > length (flash s) then (None, s)
      else (Some (last_p s), s\<lparr>last_p := last_p s + sz\<rparr>))"

definition flash_program :: "card \<Rightarrow> addr \<Rightarrow> u8 list \<Rightarrow> card option" where
  "flash_program s p bs =
     (case poke_n (flash s) p bs of None \<Rightarrow> None | Some m \<Rightarrow> Some (s\<lparr>flash := m\<rparr>))"

definition flash_put_data_internal :: "card \<Rightarrow> addr \<Rightarrow> u16 \<Rightarrow> card option" where
  "flash_put_data_internal s p hw = flash_program s p (hw_bytes hw)"

definition flash_put_data :: "card \<Rightarrow> u16 \<Rightarrow> card option" where
  "flash_put_data s hw =
     (case flash_data_pool_allocate s 2 of
        (None, s') \<Rightarrow> Some s'
      | (Some p, s') \<Rightarrow> flash_put_data_internal s' p hw)"

definition flash_set_data_pool_last :: "card \<Rightarrow> addr \<Rightarrow> card" where
  "flash_set_data_pool_last s p = s\<lparr>last_p := p\<rparr>"

text \<open>The cell of a data object: header, payload; the pad byte is left as it is.\<close>

definition flash_do_write_internal :: "card \<Rightarrow> addr \<Rightarrow> u8 \<Rightarrow> u8 list \<Rightarrow> card option" where
  "flash_do_write_internal s p nr data' =
     flash_program s p ([nr, of_nat (length data')] @ data')"

text \<open>
  \<^verbatim>\<open>flash_do_write (nr, data, len)\<close> appends a cell and returns the address of its length
  byte, which is what \<^verbatim>\<open>do_ptr\<close> holds (compare \<^verbatim>\<open>gpg_data_scan\<close> and \<^verbatim>\<open>gpg_data_copy\<close>), or
  \<^verbatim>\<open>NULL\<close> when the pool is exhausted.
\<close>

definition flash_do_write :: "card \<Rightarrow> u8 \<Rightarrow> u8 list \<Rightarrow> (addr option \<times> card) option" where
  "flash_do_write s nr data' =
     (case flash_data_pool_allocate s (2 + length data') of
        (None, s') \<Rightarrow> Some (None, s')
      | (Some p, s') \<Rightarrow>
          (case flash_do_write_internal s' p nr data' of
             None \<Rightarrow> None
           | Some s'' \<Rightarrow> Some (Some (p + 1), s'')))"

text \<open>Release: the header, one byte before the pointer, becomes \<open>0x0000\<close>.\<close>

definition flash_do_release :: "card \<Rightarrow> addr \<Rightarrow> card option" where
  "flash_do_release s do_data =
     (if do_data = 0 then None else flash_program s (do_data - 1) [0, 0])"

text \<open>The boolean cell: the marker byte and a zero byte.\<close>

definition flash_bool_write_internal :: "card \<Rightarrow> addr \<Rightarrow> u8 \<Rightarrow> card option" where
  "flash_bool_write_internal s p nr = flash_program s p [nr, 0]"

definition flash_bool_write :: "card \<Rightarrow> u8 \<Rightarrow> (addr option \<times> card) option" where
  "flash_bool_write s nr =
     (case flash_data_pool_allocate s 2 of
        (None, s') \<Rightarrow> Some (None, s')
      | (Some p, s') \<Rightarrow>
          (case flash_bool_write_internal s' p nr of
             None \<Rightarrow> None
           | Some s'' \<Rightarrow> Some (Some p, s'')))"

text \<open>\<^verbatim>\<open>flash_bool_clear (&p)\<close> releases the cell and nulls the pointer.\<close>

definition flash_bool_clear :: "card \<Rightarrow> addr option \<Rightarrow> (addr option \<times> card) option" where
  "flash_bool_clear s p =
     (case p of
        None \<Rightarrow> Some (None, s)
      | Some a \<Rightarrow>
          (case flash_program s a [0, 0] of
             None \<Rightarrow> None
           | Some s' \<Rightarrow> Some (None, s')))"

text \<open>
  Modelled from the spec: the PIN-error counter cell of sections 3 and 4.2. The cell is
  \<open>(NR_COUNTER_123, which)\<close> followed by two bytes in which every increment clears one
  more bit: \<open>FF FF\<close> is 0, \<open>FE FF\<close> is 1, \<open>FC FF\<close> is 2, \<open>F8 FF\<close> is 3;
  \<^verbatim>\<open>flash_cnt123_get_value\<close> counts the cleared bits (0 without a cell),
  \<^verbatim>\<open>flash_cnt123_increment\<close> issues one bit-clearing write (creating the cell with count 1
  when there is none), \<^verbatim>\<open>flash_cnt123_clear\<close> releases the cell. Following section 3
  (\<open>PIN-error counters saturate at PASSWORD_ERRORS_MAX = 3\<close>) the increment leaves a
  counter that has reached 3 as it is. The pointer kept in \<^verbatim>\<open>pw_err_counter_p\<close> is the
  address of the two count bytes, as \<^verbatim>\<open>gpg_data_scan\<close> and \<^verbatim>\<open>gpg_data_copy\<close> set it.
\<close>

definition cleared_bits :: "u8 \<Rightarrow> nat" where
  "cleared_bits b = length (filter (\<lambda>i. \<not> bit b i) [0..<8])"

definition cnt123_bytes :: "nat \<Rightarrow> u8 list" where
  "cnt123_bytes v = hw_bytes (push_bit v (0xffff :: u16))"

definition flash_cnt123_get_value :: "card \<Rightarrow> addr option \<Rightarrow> int option" where
  "flash_cnt123_get_value s p =
     (case p of
        None \<Rightarrow> Some 0
      | Some a \<Rightarrow>
          (case peek (flash s) a of
             None \<Rightarrow> None
           | Some b0 \<Rightarrow>
               (case peek (flash s) (a + 1) of
                  None \<Rightarrow> None
                | Some b1 \<Rightarrow> Some (int (cleared_bits b0 + cleared_bits b1)))))"

definition flash_cnt123_write_internal :: "card \<Rightarrow> addr \<Rightarrow> u8 \<Rightarrow> int \<Rightarrow> card option" where
  "flash_cnt123_write_internal s p which v =
     flash_program s p ([NR_COUNTER_123, which] @ cnt123_bytes (nat v))"

definition flash_cnt123_increment ::
  "card \<Rightarrow> u8 \<Rightarrow> addr option \<Rightarrow> (addr option \<times> card) option" where
  "flash_cnt123_increment s which p =
     (case p of
        None \<Rightarrow>
          (case flash_data_pool_allocate s 4 of
             (None, s') \<Rightarrow> Some (None, s')
           | (Some a, s') \<Rightarrow>
               (case flash_cnt123_write_internal s' a which 1 of
                  None \<Rightarrow> None
                | Some s'' \<Rightarrow> Some (Some (a + 2), s'')))
      | Some a \<Rightarrow>
          (case flash_cnt123_get_value s (Some a) of
             None \<Rightarrow> None
           | Some v \<Rightarrow>
               if v \<ge> PASSWORD_ERRORS_MAX then Some (Some a, s)
               else
                 (case flash_program s a (cnt123_bytes (nat v + 1)) of
                    None \<Rightarrow> None
                  | Some s' \<Rightarrow> Some (Some a, s'))))"

definition flash_cnt123_clear :: "card \<Rightarrow> addr option \<Rightarrow> (addr option \<times> card) option" where
  "flash_cnt123_clear s p =
     (case p of
        None \<Rightarrow> Some (None, s)
      | Some a \<Rightarrow>
          if a < 2 then None
          else
            (case flash_program s (a - 2) [0, 0] of
               None \<Rightarrow> None
             | Some s' \<Rightarrow> Some (None, s')))"

text \<open>
  Modelled from the spec: \<^verbatim>\<open>ac_check_status\<close> belongs to the collaborator \<^verbatim>\<open>ac.c\<close>. Section
  4.5: \<open>ALWAYS (no check), NEVER (always deny), ADMIN_AUTHORIZED (PW3 verified)\<close>;
  \<^verbatim>\<open>ac_reset_pso_cds\<close> withdraws the authorisation for PSO:CDS.
\<close>

definition ac_check_status :: "card \<Rightarrow> ac \<Rightarrow> bool" where
  "ac_check_status s lvl =
     (case lvl of
        AC_ALWAYS \<Rightarrow> True
      | AC_NEVER \<Rightarrow> False
      | AC_ADMIN_AUTHORIZED \<Rightarrow> admin_authorized s)"

definition ac_reset_pso_cds :: "card \<Rightarrow> card" where
  "ac_reset_pso_cds s = s\<lparr>pso_cds_authorized := False\<rparr>"

section \<open>Counters\<close>

subsection \<open>The digital signature counter\<close>

definition dsc_hw0 :: "u32 \<Rightarrow> u16" where
  "dsc_hw0 dsc =
     ucast (ucast NR_COUNTER_DS OR drop_bit 18 (dsc AND 0xfc0000)
            OR drop_bit 2 (dsc AND 0x03fc00))"

definition dsc_hw1 :: "u32 \<Rightarrow> u16" where
  "dsc_hw1 dsc =
     ucast (ucast NR_COUNTER_DS_LSB OR drop_bit 8 (dsc AND 0x0300)
            OR push_bit 8 (dsc AND 0x00ff))"

definition gpg_write_digital_signature_counter ::
  "card \<Rightarrow> addr \<Rightarrow> u32 \<Rightarrow> (addr \<times> card) option" where
  "gpg_write_digital_signature_counter s p dsc =
     (if drop_bit 10 dsc = 0 then
        (let hw1 = dsc_hw1 dsc in
         case flash_put_data_internal s p hw1 of
           None \<Rightarrow> None
         | Some s1 \<Rightarrow> Some (p + 2, s1))
      else
        (let hw0 = dsc_hw0 dsc; hw1 = ucast NR_COUNTER_DS_LSB in
         case flash_put_data_internal s p hw0 of
           None \<Rightarrow> None
         | Some s1 \<Rightarrow>
             (case flash_put_data_internal s1 (p + 2) hw1 of
                None \<Rightarrow> None
              | Some s2 \<Rightarrow> Some (p + 4, s2))))"

definition gpg_increment_digital_signature_counter :: "card \<Rightarrow> card option" where
  "gpg_increment_digital_signature_counter s =
     (let dsc = (digital_signature_counter s + 1) AND 0x00ffffff in
      if dsc AND 0x03ff = 0 then
        (let hw0 = dsc_hw0 dsc; hw1 = ucast NR_COUNTER_DS_LSB in
         case flash_put_data s hw0 of
           None \<Rightarrow> None
         | Some s1 \<Rightarrow>
             (case flash_put_data s1 hw1 of
                None \<Rightarrow> None
              | Some s2 \<Rightarrow> Some (s2\<lparr>digital_signature_counter := dsc\<rparr>)))
      else
        (let hw1 = dsc_hw1 dsc in
         case flash_put_data s hw1 of
           None \<Rightarrow> None
         | Some s1 \<Rightarrow> Some (s1\<lparr>digital_signature_counter := dsc\<rparr>)))"

subsection \<open>The PIN-error counters\<close>

definition gpg_get_pw_err_counter :: "card \<Rightarrow> u8 \<Rightarrow> int option" where
  "gpg_get_pw_err_counter s which =
     (if unat which < length (pw_err_counter_p s)
      then flash_cnt123_get_value s (pw_err_counter_p s ! unat which)
      else None)"

definition gpg_passwd_locked :: "card \<Rightarrow> u8 \<Rightarrow> int option" where
  "gpg_passwd_locked s which =
     (case gpg_get_pw_err_counter s which of
        None \<Rightarrow> None
      | Some v \<Rightarrow> Some (if v \<ge> PASSWORD_ERRORS_MAX then 1 else 0))"

definition gpg_reset_pw_err_counter :: "card \<Rightarrow> u8 \<Rightarrow> card option" where
  "gpg_reset_pw_err_counter s which =
     (if unat which < length (pw_err_counter_p s) then
        (case flash_cnt123_clear s (pw_err_counter_p s ! unat which) of
           None \<Rightarrow> None
         | Some (p, s1) \<Rightarrow>
             (let s2 = s1\<lparr>pw_err_counter_p := (pw_err_counter_p s1)[unat which := p]\<rparr> in
              if p \<noteq> None then Some (s2\<lparr>res_APDU := Status SW_MEMORY_FAILURE\<rparr>)
              else Some s2))
      else None)"

definition gpg_increment_pw_err_counter :: "card \<Rightarrow> u8 \<Rightarrow> card option" where
  "gpg_increment_pw_err_counter s which =
     (if unat which < length (pw_err_counter_p s) then
        (case flash_cnt123_increment s which (pw_err_counter_p s ! unat which) of
           None \<Rightarrow> None
         | Some (p, s1) \<Rightarrow>
             Some (s1\<lparr>pw_err_counter_p := (pw_err_counter_p s1)[unat which := p]\<rparr>))
      else None)"

definition gpg_get_pw1_lifetime :: "card \<Rightarrow> int" where
  "gpg_get_pw1_lifetime s = (if pw1_lifetime_p s = None then 0 else 1)"

section \<open>The catalog of data objects\<close>

datatype do_type =
  DO_FIXED | DO_VAR | DO_CMP_READ | DO_PROC_READ | DO_PROC_WRITE | DO_PROC_READWRITE

text \<open>
  The field \<^verbatim>\<open>obj\<close> is a \<^verbatim>\<open>const void *\<close> that the code casts according to \<^verbatim>\<open>do_type\<close>: a
  length-prefixed blob, the address \<^verbatim>\<open>&do_ptr[i]\<close>, a list of component tags headed by
  their number, or one of the handlers. The cast of a pointer of another kind is left
  open by the source (\<open>None\<close> below).
\<close>

datatype read_func = F_do_hist_bytes | F_do_fp_all | F_do_cafp_all | F_do_kgtime_all | F_do_ds_count

datatype proc_func = F_proc_resetting_code | F_proc_key_import

datatype obj =
  Obj_null
| Obj_blob "u8 list"
| Obj_do_ptr nat
| Obj_cmp "u16 list"
| Obj_read read_func
| Obj_rw_pw_status
| Obj_proc proc_func

record do_table_entry =
  tag :: u16
  do_type :: do_type
  ac_read :: ac
  ac_write :: ac
  obj :: obj

abbreviation "GPG_DO_AID \<equiv> (0x004f :: u16)"
abbreviation "GPG_DO_NAME \<equiv> (0x005b :: u16)"
abbreviation "GPG_DO_LOGIN_DATA \<equiv> (0x005e :: u16)"
abbreviation "GPG_DO_CH_DATA \<equiv> (0x0065 :: u16)"
abbreviation "GPG_DO_APP_DATA \<equiv> (0x006e :: u16)"
abbreviation "GPG_DO_SS_TEMP \<equiv> (0x007a :: u16)"
abbreviation "GPG_DO_DS_COUNT \<equiv> (0x0093 :: u16)"
abbreviation "GPG_DO_EXTCAP \<equiv> (0x00c0 :: u16)"
abbreviation "GPG_DO_ALG_SIG \<equiv> (0x00c1 :: u16)"
abbreviation "GPG_DO_ALG_DEC \<equiv> (0x00c2 :: u16)"
abbreviation "GPG_DO_ALG_AUT \<equiv> (0x00c3 :: u16)"
abbreviation "GPG_DO_PW_STATUS \<equiv> (0x00c4 :: u16)"
abbreviation "GPG_DO_FP_ALL \<equiv> (0x00c5 :: u16)"
abbreviation "GPG_DO_CAFP_ALL \<equiv> (0x00c6 :: u16)"
abbreviation "GPG_DO_FP_SIG \<equiv> (0x00c7 :: u16)"
abbreviation "GPG_DO_FP_DEC \<equiv> (0x00c8 :: u16)"
abbreviation "GPG_DO_FP_AUT \<equiv> (0x00c9 :: u16)"
abbreviation "GPG_DO_CAFP_1 \<equiv> (0x00ca :: u16)"
abbreviation "GPG_DO_CAFP_2 \<equiv> (0x00cb :: u16)"
abbreviation "GPG_DO_CAFP_3 \<equiv> (0x00cc :: u16)"
abbreviation "GPG_DO_KGTIME_ALL \<equiv> (0x00cd :: u16)"
abbreviation "GPG_DO_KGTIME_SIG \<equiv> (0x00ce :: u16)"
abbreviation "GPG_DO_KGTIME_DEC \<equiv> (0x00cf :: u16)"
abbreviation "GPG_DO_KGTIME_AUT \<equiv> (0x00d0 :: u16)"
abbreviation "GPG_DO_RESETTING_CODE \<equiv> (0x00d3 :: u16)"
abbreviation "GPG_DO_KEY_IMPORT \<equiv> (0x3fff :: u16)"
abbreviation "GPG_DO_LANGUAGE \<equiv> (0x5f2d :: u16)"
abbreviation "GPG_DO_SEX \<equiv> (0x5f35 :: u16)"
abbreviation "GPG_DO_URL \<equiv> (0x5f50 :: u16)"
abbreviation "GPG_DO_HIST_BYTES \<equiv> (0x5f52 :: u16)"
abbreviation "GPG_DO_CH_CERTIFICATE \<equiv> (0x7f21 :: u16)"

subsection \<open>Compile-time blobs\<close>

definition openpgpcard_aid :: "env \<Rightarrow> u8 list" where
  "openpgpcard_aid e =
     [16, 0xd2, 0x76, 0x00, 0x01, 0x24, 0x01, 0x02, 0x00]
     @ manufacturer_in_aid e @ serial_number_in_aid e @ [0x00, 0x00]"

definition historical_bytes :: "u8 list" where
  "historical_bytes = [10, 0x00, 0x31, 0x80, 0x73, 0x80, 0x01, 0x40, 0x00, 0x90, 0x00]"

definition extended_capabilities :: "env \<Rightarrow> u8 list" where
  "extended_capabilities e =
     [10, 0x30, 0, 0x00, 0x00, 0x00, 0x00,
      ucast (drop_bit 8 (max_cmd_apdu_size e)), ucast (max_cmd_apdu_size e AND 0xff),
      ucast (drop_bit 8 (max_res_apdu_size e)), ucast (max_res_apdu_size e AND 0xff)]"

definition algorithm_attr :: "u8 list" where
  "algorithm_attr = [6, 0x01, 0x08, 0x00, 0x00, 0x20, 0x00]"

definition cmp_ch_data :: "u16 list" where
  "cmp_ch_data = [3, GPG_DO_NAME, GPG_DO_LANGUAGE, GPG_DO_SEX]"

definition cmp_app_data :: "u16 list" where
  "cmp_app_data =
     [10, GPG_DO_AID, GPG_DO_HIST_BYTES, GPG_DO_EXTCAP,
      GPG_DO_ALG_SIG, GPG_DO_ALG_DEC, GPG_DO_ALG_AUT,
      GPG_DO_PW_STATUS,
      GPG_DO_FP_ALL, GPG_DO_CAFP_ALL, GPG_DO_KGTIME_ALL]"

definition cmp_ss_temp :: "u16 list" where
  "cmp_ss_temp = [1, GPG_DO_DS_COUNT]"

subsection \<open>The table\<close>

definition entry :: "u16 \<Rightarrow> do_type \<Rightarrow> ac \<Rightarrow> ac \<Rightarrow> obj \<Rightarrow> do_table_entry" where
  "entry t ty r w ob = \<lparr>tag = t, do_type = ty, ac_read = r, ac_write = w, obj = ob\<rparr>"

definition gpg_do_table :: "env \<Rightarrow> do_table_entry list" where
  "gpg_do_table e =
   [ entry GPG_DO_SEX DO_VAR AC_ALWAYS AC_ADMIN_AUTHORIZED (Obj_do_ptr 0),
     entry GPG_DO_FP_SIG DO_VAR AC_ALWAYS AC_ADMIN_AUTHORIZED (Obj_do_ptr 1),
     entry GPG_DO_FP_DEC DO_VAR AC_ALWAYS AC_ADMIN_AUTHORIZED (Obj_do_ptr 2),
     entry GPG_DO_FP_AUT DO_VAR AC_ALWAYS AC_ADMIN_AUTHORIZED (Obj_do_ptr 3),
     entry GPG_DO_CAFP_1 DO_VAR AC_ALWAYS AC_ADMIN_AUTHORIZED (Obj_do_ptr 4),
     entry GPG_DO_CAFP_2 DO_VAR AC_ALWAYS AC_ADMIN_AUTHORIZED (Obj_do_ptr 5),
     entry GPG_DO_CAFP_3 DO_VAR AC_ALWAYS AC_ADMIN_AUTHORIZED (Obj_do_ptr 6),
     entry GPG_DO_KGTIME_SIG DO_VAR AC_ALWAYS AC_ADMIN_AUTHORIZED (Obj_do_ptr 7),
     entry GPG_DO_KGTIME_DEC DO_VAR AC_ALWAYS AC_ADMIN_AUTHORIZED (Obj_do_ptr 8),
     entry GPG_DO_KGTIME_AUT DO_VAR AC_ALWAYS AC_ADMIN_AUTHORIZED (Obj_do_ptr 9),
     entry GPG_DO_LOGIN_DATA DO_VAR AC_ALWAYS AC_ADMIN_AUTHORIZED (Obj_do_ptr 10),
     entry GPG_DO_URL DO_VAR AC_ALWAYS AC_ADMIN_AUTHORIZED (Obj_do_ptr 11),
     entry GPG_DO_NAME DO_VAR AC_ALWAYS AC_ADMIN_AUTHORIZED (Obj_do_ptr 12),
     entry GPG_DO_LANGUAGE DO_VAR AC_ALWAYS AC_ADMIN_AUTHORIZED (Obj_do_ptr 13),
     entry GPG_DO_HIST_BYTES DO_PROC_READ AC_ALWAYS AC_NEVER (Obj_read F_do_hist_bytes),
     entry GPG_DO_FP_ALL DO_PROC_READ AC_ALWAYS AC_NEVER (Obj_read F_do_fp_all),
     entry GPG_DO_CAFP_ALL DO_PROC_READ AC_ALWAYS AC_NEVER (Obj_read F_do_cafp_all),
     entry GPG_DO_KGTIME_ALL DO_PROC_READ AC_ALWAYS AC_NEVER (Obj_read F_do_kgtime_all),
     entry GPG_DO_DS_COUNT DO_PROC_READ AC_ALWAYS AC_NEVER (Obj_read F_do_ds_count),
     entry GPG_DO_PW_STATUS DO_PROC_READWRITE AC_ALWAYS AC_ADMIN_AUTHORIZED Obj_rw_pw_status,
     entry GPG_DO_AID DO_FIXED AC_ALWAYS AC_NEVER (Obj_blob (openpgpcard_aid e)),
     entry GPG_DO_EXTCAP DO_FIXED AC_ALWAYS AC_NEVER (Obj_blob (extended_capabilities e)),
     entry GPG_DO_ALG_SIG DO_FIXED AC_ALWAYS AC_NEVER (Obj_blob algorithm_attr),
     entry GPG_DO_ALG_DEC DO_FIXED AC_ALWAYS AC_NEVER (Obj_blob algorithm_attr),
     entry GPG_DO_ALG_AUT DO_FIXED AC_ALWAYS AC_NEVER (Obj_blob algorithm_attr),
     entry GPG_DO_CH_DATA DO_CMP_READ AC_ALWAYS AC_NEVER (Obj_cmp cmp_ch_data),
     entry GPG_DO_APP_DATA DO_CMP_READ AC_ALWAYS AC_NEVER (Obj_cmp cmp_app_data),
     entry GPG_DO_SS_TEMP DO_CMP_READ AC_ALWAYS AC_NEVER (Obj_cmp cmp_ss_temp),
     entry GPG_DO_RESETTING_CODE DO_PROC_WRITE AC_NEVER AC_ADMIN_AUTHORIZED
       (Obj_proc F_proc_resetting_code),
     entry GPG_DO_KEY_IMPORT DO_PROC_WRITE AC_NEVER AC_ADMIN_AUTHORIZED
       (Obj_proc F_proc_key_import),
     entry GPG_DO_CH_CERTIFICATE DO_PROC_READWRITE AC_NEVER AC_NEVER Obj_null ]"

definition get_do_entry :: "env \<Rightarrow> u16 \<Rightarrow> do_table_entry option" where
  "get_do_entry e t = find (\<lambda>d. tag d = t) (gpg_do_table e)"

definition do_tag_to_nr :: "u16 \<Rightarrow> u8 option" where
  "do_tag_to_nr t =
     (if t = GPG_DO_SEX then Some NR_DO_SEX
      else if t = GPG_DO_FP_SIG then Some NR_DO_FP_SIG
      else if t = GPG_DO_FP_DEC then Some NR_DO_FP_DEC
      else if t = GPG_DO_FP_AUT then Some NR_DO_FP_AUT
      else if t = GPG_DO_CAFP_1 then Some NR_DO_CAFP_1
      else if t = GPG_DO_CAFP_2 then Some NR_DO_CAFP_2
      else if t = GPG_DO_CAFP_3 then Some NR_DO_CAFP_3
      else if t = GPG_DO_KGTIME_SIG then Some NR_DO_KGTIME_SIG
      else if t = GPG_DO_KGTIME_DEC then Some NR_DO_KGTIME_DEC
      else if t = GPG_DO_KGTIME_AUT then Some NR_DO_KGTIME_AUT
      else if t = GPG_DO_LOGIN_DATA then Some NR_DO_LOGIN_DATA
      else if t = GPG_DO_URL then Some NR_DO_URL
      else if t = GPG_DO_NAME then Some NR_DO_NAME
      else if t = GPG_DO_LANGUAGE then Some NR_DO_LANGUAGE
      else None)"

section \<open>Reading data objects\<close>

text \<open>
  The statement \<^verbatim>\<open>*res_p++ = b\<close> and \<^verbatim>\<open>memcpy (res_p, ...); res_p += n\<close>: bytes are appended
  to the response under construction. The size of \<^verbatim>\<open>res_APDU\<close> is not checked by the source
  and not bounded here.
\<close>

definition put_res :: "card \<Rightarrow> u8 list \<Rightarrow> card" where
  "put_res s bs = s\<lparr>res := res s @ bs\<rparr>"

definition copy_tag :: "card \<Rightarrow> u16 \<Rightarrow> card" where
  "copy_tag s t =
     (if t < 0x0100 then put_res s [ucast (t AND 0xff)]
      else put_res (put_res s [ucast (drop_bit 8 t)]) [ucast (t AND 0xff)])"

text \<open>
  \<^verbatim>\<open>copy_do_1 (tag, do_data, with_tag)\<close>; \<open>do_data\<close> is the memory from the pointer
  onwards.
\<close>

definition copy_do_1 :: "card \<Rightarrow> u16 \<Rightarrow> u8 list \<Rightarrow> bool \<Rightarrow> card option" where
  "copy_do_1 s t do_data with_tag =
     (case do_data of
        [] \<Rightarrow> None
      | l # rest \<Rightarrow>
          if with_tag then
            (let s1 = copy_tag s t;
                 s2 = (if l \<ge> 128 then put_res s1 [0x81] else s1);
                 len = unat l + 1
             in if len \<le> length do_data then Some (put_res s2 (take len do_data)) else None)
          else
            (let len = unat l
             in if len \<le> length rest then Some (put_res s (take len rest)) else None))"

definition gpg_do_read_simple :: "card \<Rightarrow> u8 \<Rightarrow> addr option option" where
  "gpg_do_read_simple s nr =
     (case do_index nr of
        None \<Rightarrow> None
      | Some i \<Rightarrow>
          (case do_ptr_get s i of
             None \<Rightarrow> None
           | Some None \<Rightarrow> Some None
           | Some (Some do_data) \<Rightarrow> Some (Some (do_data + 1))))"

text \<open>
  The block that the three \<open>_all\<close> handlers repeat for each component:
  \<^verbatim>\<open>data = gpg_do_read_simple (nr); if (data) memcpy (res_p, data, n); else memset (res_p, 0, n); res_p += n;\<close>
\<close>

definition copy_simple_or_zero :: "card \<Rightarrow> u8 \<Rightarrow> nat \<Rightarrow> card option" where
  "copy_simple_or_zero s nr n =
     (case gpg_do_read_simple s nr of
        None \<Rightarrow> None
      | Some None \<Rightarrow> Some (put_res s (replicate n 0))
      | Some (Some data') \<Rightarrow>
          (case peek_n (flash s) data' n of
             None \<Rightarrow> None
           | Some bs \<Rightarrow> Some (put_res s bs)))"

definition do_hist_bytes :: "card \<Rightarrow> u16 \<Rightarrow> bool \<Rightarrow> (int \<times> card) option" where
  "do_hist_bytes s t with_tag =
     (case copy_do_1 s t historical_bytes with_tag of
        None \<Rightarrow> None
      | Some s1 \<Rightarrow> Some (1, s1))"

definition do_fp_all :: "card \<Rightarrow> u16 \<Rightarrow> bool \<Rightarrow> (int \<times> card) option" where
  "do_fp_all s t with_tag =
     (let s0 = (if with_tag then put_res (copy_tag s t) [of_nat (SIZE_FP * 3)] else s) in
      case copy_simple_or_zero s0 NR_DO_FP_SIG SIZE_FP of
        None \<Rightarrow> None
      | Some s1 \<Rightarrow>
          (case copy_simple_or_zero s1 NR_DO_FP_DEC SIZE_FP of
             None \<Rightarrow> None
           | Some s2 \<Rightarrow>
               (case copy_simple_or_zero s2 NR_DO_FP_AUT SIZE_FP of
                  None \<Rightarrow> None
                | Some s3 \<Rightarrow> Some (1, s3))))"

definition do_cafp_all :: "card \<Rightarrow> u16 \<Rightarrow> bool \<Rightarrow> (int \<times> card) option" where
  "do_cafp_all s t with_tag =
     (let s0 = (if with_tag then put_res (copy_tag s t) [of_nat (SIZE_FP * 3)] else s) in
      case copy_simple_or_zero s0 NR_DO_CAFP_1 SIZE_FP of
        None \<Rightarrow> None
      | Some s1 \<Rightarrow>
          (case copy_simple_or_zero s1 NR_DO_CAFP_2 SIZE_FP of
             None \<Rightarrow> None
           | Some s2 \<Rightarrow>
               (case copy_simple_or_zero s2 NR_DO_CAFP_2 SIZE_FP of
                  None \<Rightarrow> None
                | Some s3 \<Rightarrow> Some (1, s3))))"

definition do_kgtime_all :: "card \<Rightarrow> u16 \<Rightarrow> bool \<Rightarrow> (int \<times> card) option" where
  "do_kgtime_all s t with_tag =
     (let s0 = (if with_tag then put_res (copy_tag s t) [of_nat (SIZE_KGTIME * 3)] else s) in
      case copy_simple_or_zero s0 NR_DO_KGTIME_SIG SIZE_KGTIME of
        None \<Rightarrow> None
      | Some s1 \<Rightarrow>
          (case copy_simple_or_zero s1 NR_DO_KGTIME_DEC SIZE_KGTIME of
             None \<Rightarrow> None
           | Some s2 \<Rightarrow>
               (case copy_simple_or_zero s2 NR_DO_KGTIME_AUT SIZE_KGTIME of
                  None \<Rightarrow> None
                | Some s3 \<Rightarrow> Some (1, s3))))"

definition do_ds_count :: "card \<Rightarrow> u16 \<Rightarrow> bool \<Rightarrow> (int \<times> card) option" where
  "do_ds_count s t with_tag =
     (let s0 = (if with_tag then put_res (copy_tag s t) [3] else s);
          dsc = digital_signature_counter s0
      in Some (1, put_res s0 [ucast (drop_bit 16 dsc AND 0xff),
                              ucast (drop_bit 8 dsc AND 0xff),
                              ucast (dsc AND 0xff)]))"

definition rw_pw_status ::
  "card \<Rightarrow> u16 \<Rightarrow> bool \<Rightarrow> u8 list \<Rightarrow> int \<Rightarrow> bool \<Rightarrow> (int \<times> card) option" where
  "rw_pw_status s t with_tag data' len is_write =
     (if is_write then
        (case peek data' 0 of
           None \<Rightarrow> None
         | Some d0 \<Rightarrow>
             if d0 = 0 then
               (case flash_bool_clear s (pw1_lifetime_p s) of
                  None \<Rightarrow> None
                | Some (p, s1) \<Rightarrow>
                    (let s2 = s1\<lparr>pw1_lifetime_p := p\<rparr> in
                     if pw1_lifetime_p s2 = None then Some (1, s2) else Some (0, s2)))
             else
               (case flash_bool_write s NR_BOOL_PW1_LIFETIME of
                  None \<Rightarrow> None
                | Some (p, s1) \<Rightarrow>
                    (let s2 = s1\<lparr>pw1_lifetime_p := p\<rparr> in
                     if pw1_lifetime_p s2 \<noteq> None then Some (1, s2) else Some (0, s2))))
      else
        (let s0 = (if with_tag then put_res (copy_tag s t) [SIZE_PW_STATUS_BYTES] else s) in
         case gpg_get_pw_err_counter s0 PW_ERR_PW1 of
           None \<Rightarrow> None
         | Some e1 \<Rightarrow>
             (case gpg_get_pw_err_counter s0 PW_ERR_RC of
                None \<Rightarrow> None
              | Some e2 \<Rightarrow>
                  (case gpg_get_pw_err_counter s0 PW_ERR_PW3 of
                     None \<Rightarrow> None
                   | Some e3 \<Rightarrow>
                       Some (1, put_res s0
                         [of_int (gpg_get_pw1_lifetime s0), PW_LEN_MAX, PW_LEN_MAX, PW_LEN_MAX,
                          of_int (PASSWORD_ERRORS_MAX - e1),
                          of_int (PASSWORD_ERRORS_MAX - e2),
                          of_int (PASSWORD_ERRORS_MAX - e3)])))))"

text \<open>The call through the handler pointer of a \<^verbatim>\<open>DO_PROC_READ\<close> entry.\<close>

definition do_func :: "read_func \<Rightarrow> card \<Rightarrow> u16 \<Rightarrow> bool \<Rightarrow> (int \<times> card) option" where
  "do_func f s t with_tag =
     (case f of
        F_do_hist_bytes \<Rightarrow> do_hist_bytes s t with_tag
      | F_do_fp_all \<Rightarrow> do_fp_all s t with_tag
      | F_do_cafp_all \<Rightarrow> do_cafp_all s t with_tag
      | F_do_kgtime_all \<Rightarrow> do_kgtime_all s t with_tag
      | F_do_ds_count \<Rightarrow> do_ds_count s t with_tag)"

subsection \<open>The dispatcher\<close>

text \<open>
  \<^verbatim>\<open>copy_do\<close> calls itself for the components of a compound object, which it finds through
  \<^verbatim>\<open>get_do_entry\<close>. The recursion ends because no compound object of the catalog has a
  compound component; the three functions below measure that.
\<close>

definition is_cmp_tag :: "env \<Rightarrow> u16 \<Rightarrow> bool" where
  "is_cmp_tag e t =
     (case get_do_entry e t of
        None \<Rightarrow> False
      | Some d \<Rightarrow> (case obj d of Obj_cmp cmp \<Rightarrow> True | _ \<Rightarrow> False))"

definition rank_cmp :: "env \<Rightarrow> u16 list \<Rightarrow> nat" where
  "rank_cmp e cmp = (if list_ex (is_cmp_tag e) cmp then 1 else 0)"

definition rank_entry :: "env \<Rightarrow> do_table_entry option \<Rightarrow> nat" where
  "rank_entry e do_p =
     (case do_p of
        None \<Rightarrow> 0
      | Some d \<Rightarrow>
          (case obj d of Obj_cmp cmp \<Rightarrow> 1 + rank_cmp e cmp | _ \<Rightarrow> 0))"

lemma get_do_entry_cmp:
  "get_do_entry e t = Some d \<Longrightarrow> obj d = Obj_cmp cmp \<Longrightarrow>
     cmp = cmp_ch_data \<or> cmp = cmp_app_data \<or> cmp = cmp_ss_temp"
  by (auto simp: get_do_entry_def gpg_do_table_def entry_def split: if_splits)

lemma rank_cmp_table:
  "rank_cmp e cmp_ch_data = 0" "rank_cmp e cmp_app_data = 0" "rank_cmp e cmp_ss_temp = 0"
  by (simp_all add: rank_cmp_def is_cmp_tag_def cmp_ch_data_def cmp_app_data_def
      cmp_ss_temp_def get_do_entry_def gpg_do_table_def entry_def)

lemma rank_entry_get_do_entry:
  "rank_entry e (get_do_entry e t) = (if is_cmp_tag e t then 1 else 0)"
  by (auto simp: rank_entry_def is_cmp_tag_def rank_cmp_table split: option.splits obj.splits
      dest!: get_do_entry_cmp)

lemma rank_entry_component:
  "i < length cmp \<Longrightarrow> 2 * rank_entry e (get_do_entry e (cmp ! i)) < 2 * rank_cmp e cmp + 1"
  by (auto simp: rank_entry_get_do_entry rank_cmp_def list_ex_iff)

function copy_do :: "env \<Rightarrow> card \<Rightarrow> do_table_entry option \<Rightarrow> bool \<Rightarrow> (int \<times> card) option"
  and copy_do_components :: "env \<Rightarrow> card \<Rightarrow> u16 list \<Rightarrow> nat \<Rightarrow> nat \<Rightarrow> (int \<times> card) option"
where
  "copy_do e s do_p with_tag =
     (case do_p of
        None \<Rightarrow> Some (0, s)
      | Some d \<Rightarrow>
          if \<not> ac_check_status s (ac_read d) then Some (- 1, s)
          else
            (case do_type d of
               DO_FIXED \<Rightarrow>
                 (case obj d of
                    Obj_null \<Rightarrow> Some (0, s)
                  | Obj_blob do_data \<Rightarrow>
                      (case copy_do_1 s (tag d) do_data with_tag of
                         None \<Rightarrow> None
                       | Some s1 \<Rightarrow> Some (1, s1))
                  | _ \<Rightarrow> None)
             | DO_VAR \<Rightarrow>
                 (case obj d of
                    Obj_do_ptr i \<Rightarrow>
                      (case do_ptr_get s i of
                         None \<Rightarrow> None
                       | Some None \<Rightarrow> Some (0, s)
                       | Some (Some do_data) \<Rightarrow>
                           (case copy_do_1 s (tag d) (drop do_data (flash s)) with_tag of
                              None \<Rightarrow> None
                            | Some s1 \<Rightarrow> Some (1, s1)))
                  | _ \<Rightarrow> None)
             | DO_CMP_READ \<Rightarrow>
                 (case obj d of
                    Obj_cmp cmp_data \<Rightarrow>
                      (case cmp_data of
                         [] \<Rightarrow> None
                       | num_components # _ \<Rightarrow>
                           (let s1 = put_res (copy_tag s (tag d)) [0x81];
                                len_p = length (res s1);
                                s2 = put_res s1 [0]
                            in case copy_do_components e s2 cmp_data 0 (unat num_components) of
                                 None \<Rightarrow> None
                               | Some (r, s3) \<Rightarrow>
                                   if r < 0 then Some (- 1, s3)
                                   else Some (1, s3\<lparr>res := (res s3)
                                            [len_p := of_nat (length (res s3) - len_p)]\<rparr>)))
                  | _ \<Rightarrow> None)
             | DO_PROC_READ \<Rightarrow>
                 (case obj d of
                    Obj_read f \<Rightarrow> do_func f s (tag d) with_tag
                  | _ \<Rightarrow> None)
             | DO_PROC_READWRITE \<Rightarrow>
                 (case obj d of
                    Obj_rw_pw_status \<Rightarrow> rw_pw_status s (tag d) with_tag [] 0 False
                  | _ \<Rightarrow> None)
             | DO_PROC_WRITE \<Rightarrow> Some (- 1, s)))"
| "copy_do_components e s cmp_data i n =
     (if i < n then
        (if i + 1 < length cmp_data then
           (case copy_do e s (get_do_entry e (cmp_data ! (i + 1))) True of
              None \<Rightarrow> None
            | Some (r, s1) \<Rightarrow>
                if r < 0 then Some (- 1, s1)
                else copy_do_components e s1 cmp_data (i + 1) n)
         else None)
      else Some (0, s))"
  by pat_completeness auto
termination
  apply (relation "measures
     [\<lambda>x. case x of
             Inl (e, s, do_p, with_tag) \<Rightarrow> 2 * rank_entry e do_p
           | Inr (e, s, cmp_data, i, n) \<Rightarrow> 2 * rank_cmp e cmp_data + 1,
      \<lambda>x. case x of
             Inl (e, s, do_p, with_tag) \<Rightarrow> 0
           | Inr (e, s, cmp_data, i, n) \<Rightarrow> n - i]")
     apply simp
    apply (simp add: rank_entry_def)
  subgoal for e s cmp_data i n
    using rank_entry_component [of "i + 1" cmp_data e] by simp
  apply simp
  done

declare copy_do.simps [simp del] copy_do_components.simps [simp del]

section \<open>GET DATA\<close>

definition gpg_do_get_data :: "env \<Rightarrow> card \<Rightarrow> u16 \<Rightarrow> card option" where
  "gpg_do_get_data e s t =
     (let do_p = get_do_entry e t;
          s0 = s\<lparr>res := []\<rparr>
      in case do_p of
           Some d \<Rightarrow>
             (case copy_do e s0 (Some d) False of
                None \<Rightarrow> None
              | Some (r, s1) \<Rightarrow>
                  if r < 0 then Some (s1\<lparr>res_APDU := Status SW_SECURITY_FAILURE\<rparr>)
                  else
                    (let s2 = put_res s1 [0x90, 0x00]
                     in Some (s2\<lparr>res_APDU := Body (res s2)\<rparr>)))
         | None \<Rightarrow> Some (s0\<lparr>res_APDU := Status SW_NO_RECORD\<rparr>))"

section \<open>Private keys\<close>

text \<open>
  Modelled from the spec: the key-slot arena of \<^verbatim>\<open>flash.c\<close> (section 4.1): \<^verbatim>\<open>flash_key_alloc\<close>
  finds an unused slot or fails, \<^verbatim>\<open>flash_key_write\<close> stores the encrypted key followed by
  the modulus, \<^verbatim>\<open>flash_key_release\<close> marks the slot free. A slot address is the index of
  the slot.
\<close>

definition flash_key_alloc :: "card \<Rightarrow> addr option" where
  "flash_key_alloc s =
     (case filter (\<lambda>i. key_slots s ! i = None) [0..<length (key_slots s)] of
        [] \<Rightarrow> None
      | i # _ \<Rightarrow> Some i)"

definition flash_key_write :: "card \<Rightarrow> addr \<Rightarrow> u8 list \<Rightarrow> u8 list \<Rightarrow> int \<times> card" where
  "flash_key_write s key_addr enc modulus =
     (if key_addr < length (key_slots s)
      then (0, s\<lparr>key_slots := (key_slots s)[key_addr := Some (enc @ modulus)]\<rparr>)
      else (- 1, s))"

definition flash_key_release :: "card \<Rightarrow> addr \<Rightarrow> card option" where
  "flash_key_release s key_addr =
     (if key_addr < length (key_slots s)
      then Some (s\<lparr>key_slots := (key_slots s)[key_addr := None]\<rparr>)
      else None)"

text \<open>A pointer stored in memory: four bytes, little-endian.\<close>

definition ptr_bytes :: "addr \<Rightarrow> u8 list" where
  "ptr_bytes a =
     [of_nat (a mod 256), of_nat (a div 256 mod 256),
      of_nat (a div 65536 mod 256), of_nat (a div 16777216 mod 256)]"

definition bytes_ptr :: "u8 list \<Rightarrow> addr" where
  "bytes_ptr bs =
     unat (bs ! 0) + 256 * unat (bs ! 1) + 65536 * unat (bs ! 2) + 16777216 * unat (bs ! 3)"

definition u32_bytes :: "u32 \<Rightarrow> u8 list" where
  "u32_bytes w = [ucast w, ucast (drop_bit 8 w), ucast (drop_bit 16 w), ucast (drop_bit 24 w)]"

definition bytes_u32 :: "u8 list \<Rightarrow> u32" where
  "bytes_u32 bs =
     ucast (bs ! 0) OR push_bit 8 (ucast (bs ! 1)) OR push_bit 16 (ucast (bs ! 2))
     OR push_bit 24 (ucast (bs ! 3))"

datatype kind_of_key =
  GPG_KEY_FOR_SIGNING | GPG_KEY_FOR_DECRYPTION | GPG_KEY_FOR_AUTHENTICATION

text \<open>
  Modelled from the spec: the sizes of \<^verbatim>\<open>gnuk.h\<close>. Section 3 gives the layout of the
  private-key record (a pointer, then four fields of 16 bytes) and of the working key
  (key content, 32-bit check, 32-bit random, 8 bytes of magic); the role numbers
  \<^verbatim>\<open>BY_RESETCODE\<close> and \<^verbatim>\<open>BY_ADMIN\<close> are those for which the address arithmetic of
  \<^verbatim>\<open>gpg_do_load_prvkey\<close> and \<^verbatim>\<open>gpg_do_chks_prvkey\<close> selects the second and the third copy
  of the data encryption key.
\<close>

abbreviation "ADDITIONAL_DATA_SIZE \<equiv> (16 :: nat)"
abbreviation "DATA_ENCRYPTION_KEY_SIZE \<equiv> (16 :: nat)"
abbreviation "KEY_MAGIC_LEN \<equiv> (8 :: nat)"
abbreviation "SIZEOF_PRVKEY_DATA \<equiv> (68 :: nat)"
abbreviation "KEYSTRING_MD_SIZE \<equiv> (20 :: nat)"
abbreviation "KEYSTRING_SIZE_RC \<equiv> (21 :: nat)"
abbreviation "NUM_ALL_PRV_KEYS \<equiv> (3 :: u8)"
abbreviation "BY_RESETCODE \<equiv> (2 :: int)"
abbreviation "BY_ADMIN \<equiv> (3 :: int)"

definition sizeof_key_data :: "env \<Rightarrow> nat" where
  "sizeof_key_data e = key_content_len e + 4 + 4 + KEY_MAGIC_LEN"

text \<open>
  \<^verbatim>\<open>encrypt\<close> and \<^verbatim>\<open>decrypt\<close> set a 128-bit key, so they read 16 bytes at \<^verbatim>\<open>key_str\<close>.
\<close>

definition encrypt :: "env \<Rightarrow> u8 list \<Rightarrow> u8 list \<Rightarrow> u8 list option" where
  "encrypt e key_str data' =
     (if length key_str < 16 then None else Some (aes_cfb128_enc e (take 16 key_str) data'))"

definition decrypt :: "env \<Rightarrow> u8 list \<Rightarrow> u8 list \<Rightarrow> u8 list option" where
  "decrypt e key_str data' =
     (if length key_str < 16 then None else Some (aes_cfb128_dec e (take 16 key_str) data'))"

definition get_do_ptr_nr_for_kk :: "kind_of_key \<Rightarrow> u8" where
  "get_do_ptr_nr_for_kk kk =
     (case kk of
        GPG_KEY_FOR_SIGNING \<Rightarrow> NR_DO_PRVKEY_SIG
      | GPG_KEY_FOR_DECRYPTION \<Rightarrow> NR_DO_PRVKEY_DEC
      | GPG_KEY_FOR_AUTHENTICATION \<Rightarrow> NR_DO_PRVKEY_AUT)"

definition gpg_do_write_simple :: "card \<Rightarrow> u8 \<Rightarrow> u8 list option \<Rightarrow> nat \<Rightarrow> card option" where
  "gpg_do_write_simple s nr data' size' =
     (case do_index nr of
        None \<Rightarrow> None
      | Some i \<Rightarrow>
          (case do_ptr_get s i of
             None \<Rightarrow> None
           | Some old \<Rightarrow>
               (case (case old of None \<Rightarrow> Some s | Some a \<Rightarrow> flash_do_release s a) of
                  None \<Rightarrow> None
                | Some s1 \<Rightarrow>
                    (case data' of
                       Some bs \<Rightarrow>
                         if size' \<le> length bs then
                           (case flash_do_write s1 nr (take size' bs) of
                              None \<Rightarrow> None
                            | Some (p, s2) \<Rightarrow> do_ptr_set s2 i p)
                         else None
                     | None \<Rightarrow> do_ptr_set s1 i None))))"

text \<open>Reading \<open>n\<close> bytes at the start of a key slot; an unwritten slot has no content.\<close>

definition key_slot_read :: "card \<Rightarrow> addr \<Rightarrow> nat \<Rightarrow> u8 list option" where
  "key_slot_read s key_addr n =
     (if key_addr < length (key_slots s) then
        (case key_slots s ! key_addr of
           None \<Rightarrow> None
         | Some slot \<Rightarrow> if n \<le> length slot then Some (take n slot) else None)
      else None)"

definition gpg_do_load_prvkey ::
  "env \<Rightarrow> card \<Rightarrow> kind_of_key \<Rightarrow> int \<Rightarrow> u8 list \<Rightarrow> (int \<times> card) option" where
  "gpg_do_load_prvkey e s kk who keystring =
     (let nr = get_do_ptr_nr_for_kk kk in
      do {
        i \<leftarrow> do_index nr;
        p \<leftarrow> do_ptr_get s i;
        case p of
          None \<Rightarrow> Some (0, s)
        | Some do_data \<Rightarrow> do {
            kb \<leftarrow> peek_n (flash s) (do_data + 1) 4;
            key_data \<leftarrow> key_slot_read s (bytes_ptr kb) (key_content_len e);
            crm \<leftarrow> peek_n (flash s) (do_data + 5) ADDITIONAL_DATA_SIZE;
            dek0 \<leftarrow> (if int do_data + 5 + 16 * who < 0 then None
                     else peek_n (flash s) (nat (int do_data + 5 + 16 * who))
                            DATA_ENCRYPTION_KEY_SIZE);
            dek \<leftarrow> decrypt e keystring dek0;
            kd1 \<leftarrow> decrypt e dek (key_data @ crm);
            let s1 = s\<lparr>kd := kd1\<rparr>;
            if take KEY_MAGIC_LEN (drop (key_content_len e + 8) kd1)
               \<noteq> take KEY_MAGIC_LEN (gnuk_magic e)
            then Some (- 1, s1)
            else Some (1, s1)
          }
      })"

text \<open>
  \<^verbatim>\<open>calc_check32\<close> adds the \<open>len / 4\<close> little-endian 32-bit words of the buffer.
\<close>

fun sum32 :: "u8 list \<Rightarrow> nat \<Rightarrow> u32" where
  "sum32 bs 0 = 0"
| "sum32 bs (Suc n) = sum32 bs n + bytes_u32 (take 4 (drop (4 * n) bs))"

definition calc_check32 :: "u8 list \<Rightarrow> nat \<Rightarrow> u32 option" where
  "calc_check32 p len = (if 4 * (len div 4) \<le> length p then Some (sum32 p (len div 4)) else None)"

text \<open>
  \<^verbatim>\<open>gpg_do_write_prvkey\<close>. The record \<^verbatim>\<open>pd\<close> is assembled at the end from its five fields;
  until then the three copies of the data encryption key are carried along. With an old
  key the record is first copied from the old cell (68 bytes at \<^verbatim>\<open>do_data + 1\<close>), from which
  the old slot address and the third copy are taken.
\<close>

definition write_prvkey_deks ::
  "env \<Rightarrow> card \<Rightarrow> addr option \<Rightarrow>
     (u8 list \<times> u8 list \<times> u8 list \<times> u8 list \<times> addr option \<times> addr option \<times> card) option" where
  "write_prvkey_deks e s do_data =
     (case do_data of
        Some a \<Rightarrow> do {
          pd \<leftarrow> peek_n (flash s) (a + 1) SIZEOF_PRVKEY_DATA;
          dek \<leftarrow> decrypt e (keystring_md_pw3 s) (take DATA_ENCRYPTION_KEY_SIZE (drop 52 pd));
          s1 \<leftarrow> gpg_do_write_simple s NR_DO_KEYSTRING_PW1 None 0;
          s2 \<leftarrow> gpg_do_write_simple s1 NR_DO_KEYSTRING_RC None 0;
          s3 \<leftarrow> flash_key_release s2 (bytes_ptr (take 4 pd));
          s4 \<leftarrow> flash_do_release s3 a;
          Some (dek, dek, replicate DATA_ENCRYPTION_KEY_SIZE 0, dek, None, None, s4)
        }
      | None \<Rightarrow> do {
          let dek = take DATA_ENCRYPTION_KEY_SIZE (random_bytes_get e);
          ks_pw1 \<leftarrow> gpg_do_read_simple s NR_DO_KEYSTRING_PW1;
          ks_rc \<leftarrow> gpg_do_read_simple s NR_DO_KEYSTRING_RC;
          Some (dek, dek, dek, dek, ks_pw1, ks_rc, s)
        })"

definition gpg_do_write_prvkey ::
  "env \<Rightarrow> card \<Rightarrow> kind_of_key \<Rightarrow> u8 list \<Rightarrow> int \<Rightarrow> u8 list \<Rightarrow> (int \<times> card) option" where
  "gpg_do_write_prvkey e s kk key_data key_len keystring =
     (let nr = get_do_ptr_nr_for_kk kk in
      do {
        i \<leftarrow> do_index nr;
        do_data \<leftarrow> do_ptr_get s i;
        if malloc_fails e then Some (- 1, s)
        else if nat key_len > length key_data then None
        else
          (case modulus_calc e (take (nat key_len) key_data) of
             None \<Rightarrow> Some (- 1, s)
           | Some modulus \<Rightarrow>
               (case flash_key_alloc s of
                  None \<Rightarrow> Some (- 1, s)
                | Some key_addr \<Rightarrow> do {
                    kd_data \<leftarrow> peek_n key_data 0 (key_content_len e);
                    check \<leftarrow> calc_check32 key_data (key_content_len e);
                    let kd0 = kd_data @ u32_bytes check @ u32_bytes (get_random e)
                              @ take KEY_MAGIC_LEN (gnuk_magic e);
                    (dek, dek_1, dek_2, dek_3, ks_pw1, ks_rc, s1) \<leftarrow>
                      write_prvkey_deks e (s\<lparr>kd := kd0\<rparr>) do_data;
                    kd1 \<leftarrow> encrypt e dek kd0;
                    let (r, s2) =
                      flash_key_write (s1\<lparr>kd := kd1\<rparr>) key_addr
                        (take (key_content_len e) kd1) modulus;
                    if r < 0 then Some (r, s2)
                    else do {
                      let crm = take ADDITIONAL_DATA_SIZE (drop (key_content_len e) kd1);
                      let s3 = ac_reset_pso_cds s2;
                      enc_1 \<leftarrow>
                        (case ks_pw1 of
                           Some a \<Rightarrow> do {
                             k \<leftarrow> peek_n (flash s3) (a + 1) 16;
                             encrypt e k dek_1
                           }
                         | None \<Rightarrow> encrypt e (sha1 e (initial_pw1 e)) dek_1);
                      enc_2 \<leftarrow>
                        (case ks_rc of
                           Some a \<Rightarrow> do {
                             k \<leftarrow> peek_n (flash s3) (a + 1) 16;
                             encrypt e k dek_2
                           }
                         | None \<Rightarrow> Some (replicate DATA_ENCRYPTION_KEY_SIZE 0));
                      enc_3 \<leftarrow> encrypt e keystring dek_3;
                      let pd = ptr_bytes key_addr @ crm @ enc_1 @ enc_2 @ enc_3;
                      (p, s4) \<leftarrow>
                        (if length pd = SIZEOF_PRVKEY_DATA then flash_do_write s3 nr pd
                         else None);
                      s5 \<leftarrow> do_ptr_set s4 i p;
                      if p = None then Some (- 1, s5)
                      else if do_data = None then
                        (let s6 = s5\<lparr>num_prv_keys := num_prv_keys s5 + 1\<rparr> in
                         if num_prv_keys s6 = NUM_ALL_PRV_KEYS then do {
                           s7 \<leftarrow>
                             (case ks_pw1 of
                                Some a \<Rightarrow> do {
                                  ks_pw1_len \<leftarrow> peek (flash s6) a;
                                  gpg_do_write_simple s6 NR_DO_KEYSTRING_PW1 (Some [ks_pw1_len]) 1
                                }
                              | None \<Rightarrow> Some s6);
                           s8 \<leftarrow>
                             (case ks_rc of
                                Some a \<Rightarrow> do {
                                  ks_rc_len \<leftarrow> peek (flash s7) a;
                                  gpg_do_write_simple s7 NR_DO_KEYSTRING_RC (Some [ks_rc_len]) 1
                                }
                              | None \<Rightarrow> Some s7);
                           Some (0, s8)
                         }
                         else Some (0, s6))
                      else Some (0, s5)
                    }
                  }))
      })"

section \<open>PUT DATA\<close>

definition proc_resetting_code :: "env \<Rightarrow> card \<Rightarrow> u8 list \<Rightarrow> int \<Rightarrow> (int \<times> card) option" where
  "proc_resetting_code e s data' len =
     (if nat len > length data' then None
      else
        (let old_ks = keystring_md_pw3 s;
             new_ks = take KEYSTRING_MD_SIZE (sha1 e (take (nat len) data'));
             new_ks0 = of_int len # new_ks
         in do {
           (r, s1) \<leftarrow> change_keystring e s BY_ADMIN old_ks BY_RESETCODE new_ks;
           if r < - 2 then Some (0, s1)
           else if r < 0 then Some (0, s1)
           else do {
             s2 \<leftarrow>
               (if r = 0 then gpg_do_write_simple s1 NR_DO_KEYSTRING_RC (Some new_ks0) KEYSTRING_SIZE_RC
                else gpg_do_write_simple s1 NR_DO_KEYSTRING_RC (Some new_ks0) 1);
             s3 \<leftarrow> gpg_reset_pw_err_counter s2 PW_ERR_RC;
             Some (1, s3)
           }
         }))"

text \<open>The role selected by \<^verbatim>\<open>data[4]\<close> at the head of \<^verbatim>\<open>proc_key_import\<close>.\<close>

definition key_import_kind :: "u8 \<Rightarrow> kind_of_key" where
  "key_import_kind d4 =
     (if d4 = 0xb6 then GPG_KEY_FOR_SIGNING
      else if d4 = 0xb8 then GPG_KEY_FOR_DECRYPTION
      else GPG_KEY_FOR_AUTHENTICATION)"

definition proc_key_import :: "env \<Rightarrow> card \<Rightarrow> u8 list \<Rightarrow> int \<Rightarrow> (int \<times> card) option" where
  "proc_key_import e s data' len =
     do {
       d4 \<leftarrow> peek data' 4;
       let kk = key_import_kind d4;
       if len \<le> 22 then do {
         let nr = get_do_ptr_nr_for_kk kk;
         i \<leftarrow> do_index nr;
         do_data \<leftarrow> do_ptr_get s i;
         s1 \<leftarrow>
           (case do_data of
              Some a \<Rightarrow> do {
                kb \<leftarrow> peek_n (flash s) (a + 1) 4;
                sa \<leftarrow> flash_key_release s (bytes_ptr kb);
                flash_do_release sa a
              }
            | None \<Rightarrow> Some s);
         s2 \<leftarrow> do_ptr_set s1 i None;
         let s3 = s2\<lparr>num_prv_keys := num_prv_keys s2 - 1\<rparr>;
         if num_prv_keys s3 = 0 then do {
           s4 \<leftarrow> gpg_do_write_simple s3 NR_DO_KEYSTRING_PW1 None 0;
           s5 \<leftarrow> gpg_do_write_simple s4 NR_DO_KEYSTRING_RC None 0;
           Some (1, s5)
         }
         else Some (1, s3)
       }
       else do {
         (r, s1) \<leftarrow> gpg_do_write_prvkey e s kk (drop 26 data') (len - 26) (keystring_md_pw3 s);
         if r < 0 then Some (0, s1) else Some (1, s1)
       }
     }"

text \<open>The call through the handler pointer of a \<^verbatim>\<open>DO_PROC_WRITE\<close> entry.\<close>

definition proc_func :: "proc_func \<Rightarrow> env \<Rightarrow> card \<Rightarrow> u8 list \<Rightarrow> int \<Rightarrow> (int \<times> card) option" where
  "proc_func f e s data' len =
     (case f of
        F_proc_resetting_code \<Rightarrow> proc_resetting_code e s data' len
      | F_proc_key_import \<Rightarrow> proc_key_import e s data' len)"

definition set_status :: "card \<Rightarrow> status_word \<Rightarrow> card" where
  "set_status s w = s\<lparr>res_APDU := Status w\<rparr>"

definition gpg_do_put_data :: "env \<Rightarrow> card \<Rightarrow> u16 \<Rightarrow> u8 list \<Rightarrow> int \<Rightarrow> card option" where
  "gpg_do_put_data e s t data' len =
     (case get_do_entry e t of
        Some d \<Rightarrow>
          if \<not> ac_check_status s (ac_write d) then Some (set_status s SW_SECURITY_FAILURE)
          else
            (case do_type d of
               DO_FIXED \<Rightarrow> Some (set_status s SW_SECURITY_FAILURE)
             | DO_CMP_READ \<Rightarrow> Some (set_status s SW_SECURITY_FAILURE)
             | DO_PROC_READ \<Rightarrow> Some (set_status s SW_SECURITY_FAILURE)
             | DO_VAR \<Rightarrow>
                 (case obj d of
                    Obj_do_ptr i \<Rightarrow> do {
                      old \<leftarrow> do_ptr_get s i;
                      s1 \<leftarrow> (case old of Some a \<Rightarrow> flash_do_release s a | None \<Rightarrow> Some s);
                      if len = 0 then do_ptr_set s1 i None
                      else if len > 255 then Some (set_status s1 SW_MEMORY_FAILURE)
                      else do {
                        nr \<leftarrow> do_tag_to_nr t;
                        (p, s2) \<leftarrow>
                          (if nat len \<le> length data' then flash_do_write s1 nr (take (nat len) data')
                           else None);
                        s3 \<leftarrow> do_ptr_set s2 i p;
                        if p \<noteq> None then Some (set_status s3 SW_SUCCESS)
                        else Some (set_status s3 SW_MEMORY_FAILURE)
                      }
                    }
                  | _ \<Rightarrow> None)
             | DO_PROC_READWRITE \<Rightarrow>
                 (case obj d of
                    Obj_rw_pw_status \<Rightarrow> do {
                      (r, s1) \<leftarrow> rw_pw_status s t False data' len True;
                      if r \<noteq> 0 then Some (set_status s1 SW_SUCCESS)
                      else Some (set_status s1 SW_ERROR)
                    }
                  | _ \<Rightarrow> None)
             | DO_PROC_WRITE \<Rightarrow>
                 (case obj d of
                    Obj_proc f \<Rightarrow> do {
                      (r, s1) \<leftarrow> proc_func f e s data' len;
                      if r \<noteq> 0 then Some (set_status s1 SW_SUCCESS)
                      else Some (set_status s1 SW_ERROR)
                    }
                  | _ \<Rightarrow> None))
      | None \<Rightarrow> Some (set_status s SW_NO_RECORD))"

section \<open>Scan and compaction\<close>

text \<open>
  The loop of \<^verbatim>\<open>gpg_data_scan\<close>, with the cursor \<^verbatim>\<open>p\<close> and the two counter-cell pointers as
  arguments. Every round moves the cursor forward, and the loop is left through \<open>None\<close>
  when the cursor leaves the flash, so the recursion ends.
\<close>

lemma do_ptr_set_flash: "do_ptr_set s i p = Some s1 \<Longrightarrow> flash s1 = flash s"
  by (auto simp: do_ptr_set_def split: if_splits)

lemma peek_SomeD: "peek m a = Some x \<Longrightarrow> a < length m"
  by (simp add: peek_def split: if_splits)

text \<open>
  The body of the loop for the cell at \<open>p\<close>, whose first two bytes \<open>nr\<close> and \<open>second_byte\<close>
  have been read: the updated variables and the new cursor.
\<close>

definition scan_cell ::
  "card \<Rightarrow> addr \<Rightarrow> addr option \<Rightarrow> addr option \<Rightarrow> u8 \<Rightarrow> u8 \<Rightarrow>
     (card \<times> addr \<times> addr option \<times> addr option) option" where
  "scan_cell s p dsc_h14_p dsc_l10_p nr second_byte =
     (if nr = 0x00 \<and> second_byte = 0x00 then Some (s, p + 2, dsc_h14_p, dsc_l10_p)
      else if nr < 0x80 then
        (case do_index nr of
           None \<Rightarrow> None
         | Some i \<Rightarrow>
             (case do_ptr_set s i (Some (p + 1)) of
                None \<Rightarrow> None
              | Some s1 \<Rightarrow>
                  (let q = p + 1 + (unat second_byte + 1)
                   in Some (s1, if odd q then q + 1 else q, dsc_h14_p, dsc_l10_p))))
      else if nr \<ge> 0x80 \<and> nr \<le> 0xbf then Some (s, p + 2, Some p, dsc_l10_p)
      else if nr \<ge> 0xc0 \<and> nr \<le> 0xc3 then Some (s, p + 2, dsc_h14_p, Some p)
      else if nr = NR_BOOL_PW1_LIFETIME then
        Some (s\<lparr>pw1_lifetime_p := Some p\<rparr>, p + 2, dsc_h14_p, dsc_l10_p)
      else if nr = NR_COUNTER_123 then
        Some (if second_byte \<le> PW_ERR_PW3
              then s\<lparr>pw_err_counter_p :=
                       (pw_err_counter_p s)[unat second_byte := Some (p + 2)]\<rparr>
              else s,
              p + 4, dsc_h14_p, dsc_l10_p)
      else Some (s, p + 1, dsc_h14_p, dsc_l10_p))"

lemma scan_cell_advances:
  assumes "scan_cell s p h l nr sb = Some (s1, p1, h1, l1)"
  shows "p < p1" and "flash s1 = flash s"
  using assms
  by (auto simp: scan_cell_def Let_def do_ptr_set_flash split: if_splits option.splits)

function scan_loop ::
  "card \<Rightarrow> addr \<Rightarrow> addr option \<Rightarrow> addr option \<Rightarrow> (addr \<times> addr option \<times> addr option \<times> card) option"
where
  "scan_loop s p dsc_h14_p dsc_l10_p =
     (case peek (flash s) p of
        None \<Rightarrow> None
      | Some nr \<Rightarrow>
          if nr = NR_EMPTY then Some (p, dsc_h14_p, dsc_l10_p, s)
          else
            (case peek (flash s) (p + 1) of
               None \<Rightarrow> None
             | Some second_byte \<Rightarrow>
                 (case scan_cell s p dsc_h14_p dsc_l10_p nr second_byte of
                    None \<Rightarrow> None
                  | Some (s1, p1, h1, l1) \<Rightarrow> scan_loop s1 p1 h1 l1)))"
  by pat_completeness auto
termination
proof (relation "measure (\<lambda>(s, p, h, l). length (flash s) - p)", goal_cases)
  case 1
  show ?case by simp
next
  case (2 s p h l nr sb x s1 y p1 z h1 l1)
  then have "scan_cell s p h l nr sb = Some (s1, p1, h1, l1)" by simp
  from scan_cell_advances [OF this] peek_SomeD [OF 2(1)] show ?case by simp
qed

declare scan_loop.simps [simp del]

text \<open>
  The tail of \<^verbatim>\<open>gpg_data_scan\<close>: the sum of the length bytes of the live data objects, the
  number of private keys, and the counter value from the two cells found, where a
  lower-bits cell in front of the upper-bits cell counts as zero.
\<close>

fun sum_do_lengths :: "card \<Rightarrow> nat list \<Rightarrow> u16 \<Rightarrow> u16 option" where
  "sum_do_lengths s [] acc = Some acc"
| "sum_do_lengths s (i # is) acc =
     (case do_index (of_nat i) of
        None \<Rightarrow> None
      | Some k \<Rightarrow>
          (case do_ptr_get s k of
             None \<Rightarrow> None
           | Some None \<Rightarrow> sum_do_lengths s is acc
           | Some (Some a) \<Rightarrow>
               (case peek (flash s) a of
                  None \<Rightarrow> None
                | Some l \<Rightarrow> sum_do_lengths s is (acc + ucast l))))"

definition prv_key_present :: "card \<Rightarrow> u8 \<Rightarrow> bool option" where
  "prv_key_present s nr =
     (case do_index nr of
        None \<Rightarrow> None
      | Some i \<Rightarrow>
          (case do_ptr_get s i of
             None \<Rightarrow> None
           | Some p \<Rightarrow> Some (p \<noteq> None)))"

definition scan_dsc :: "card \<Rightarrow> addr option \<Rightarrow> addr option \<Rightarrow> u32 option" where
  "scan_dsc s dsc_h14_p dsc_l10_p =
     do {
       dsc_l10 \<leftarrow>
         (case dsc_l10_p of
            None \<Rightarrow> Some 0
          | Some a \<Rightarrow> do {
              b0 \<leftarrow> peek (flash s) a;
              b1 \<leftarrow> peek (flash s) (a + 1);
              Some (push_bit 8 (uint b0 - 0xc0) OR uint b1)
            });
       (dsc_h14, dsc_l10') \<leftarrow>
         (case dsc_h14_p of
            None \<Rightarrow> Some (0, dsc_l10)
          | Some a \<Rightarrow> do {
              b0 \<leftarrow> peek (flash s) a;
              b1 \<leftarrow> peek (flash s) (a + 1);
              let h = push_bit 8 (uint b0 - 0x80) OR uint b1;
              Some (h, case dsc_l10_p of
                         None \<Rightarrow> dsc_l10
                       | Some l \<Rightarrow> if l < a then 0 else dsc_l10)
            });
       Some (of_int (push_bit 10 dsc_h14 OR dsc_l10'))
     }"

definition gpg_data_scan :: "card \<Rightarrow> addr \<Rightarrow> card option" where
  "gpg_data_scan s p_start =
     (let s0 = s\<lparr>pw1_lifetime_p := None,
                  pw_err_counter_p := (pw_err_counter_p s)
                     [unat PW_ERR_PW1 := None, unat PW_ERR_RC := None, unat PW_ERR_PW3 := None]\<rparr>
      in do {
        (p, dsc_h14_p, dsc_l10_p, s1) \<leftarrow> scan_loop s0 p_start None None;
        let s2 = flash_set_data_pool_last s1 p;
        k1 \<leftarrow> prv_key_present s2 NR_DO_PRVKEY_SIG;
        k2 \<leftarrow> prv_key_present s2 NR_DO_PRVKEY_DEC;
        k3 \<leftarrow> prv_key_present s2 NR_DO_PRVKEY_AUT;
        let s3 = s2\<lparr>num_prv_keys :=
                      (if k1 then 1 else 0) + (if k2 then 1 else 0) + (if k3 then 1 else 0)\<rparr>;
        n \<leftarrow> sum_do_lengths s3 [unat NR_DO_FIRST..<NR_DO_LAST] 0;
        let s4 = s3\<lparr>data_objects_number_of_bytes := n\<rparr>;
        dsc \<leftarrow> scan_dsc s4 dsc_h14_p dsc_l10_p;
        Some (s4\<lparr>digital_signature_counter := dsc\<rparr>)
      })"

text \<open>The two loops of \<^verbatim>\<open>gpg_data_copy\<close>, over the indices they range over.\<close>

fun copy_counters :: "card \<Rightarrow> addr \<Rightarrow> nat list \<Rightarrow> (addr \<times> card) option" where
  "copy_counters s p [] = Some (p, s)"
| "copy_counters s p (i # is) =
     (if i < length (pw_err_counter_p s) then
        (case flash_cnt123_get_value s (pw_err_counter_p s ! i) of
           None \<Rightarrow> None
         | Some v \<Rightarrow>
             if v \<noteq> 0 then
               (case flash_cnt123_write_internal s p (of_nat i) v of
                  None \<Rightarrow> None
                | Some s1 \<Rightarrow>
                    copy_counters (s1\<lparr>pw_err_counter_p := (pw_err_counter_p s1)[i := Some (p + 2)]\<rparr>)
                      (p + 4) is)
             else copy_counters s p is)
      else None)"

fun copy_dos :: "card \<Rightarrow> addr \<Rightarrow> nat list \<Rightarrow> (addr \<times> card) option" where
  "copy_dos s p [] = Some (p, s)"
| "copy_dos s p (i # is) =
     (case do_index (of_nat i) of
        None \<Rightarrow> None
      | Some k \<Rightarrow>
          (case do_ptr_get s k of
             None \<Rightarrow> None
           | Some None \<Rightarrow> copy_dos s p is
           | Some (Some do_data) \<Rightarrow>
               (case peek (flash s) do_data of
                  None \<Rightarrow> None
                | Some l \<Rightarrow>
                    (let len = unat l in
                     case peek_n (flash s) (do_data + 1) len of
                       None \<Rightarrow> None
                     | Some bs \<Rightarrow>
                         (case flash_do_write_internal s p (of_nat i) bs of
                            None \<Rightarrow> None
                          | Some s1 \<Rightarrow>
                              (case do_ptr_set s1 k (Some (p + 1)) of
                                 None \<Rightarrow> None
                               | Some s2 \<Rightarrow>
                                   copy_dos
                                     (s2\<lparr>data_objects_number_of_bytes :=
                                           data_objects_number_of_bytes s2 + of_nat len\<rparr>)
                                     (p + (2 + (len + 1) div 2 * 2)) is))))))"

definition gpg_data_copy :: "card \<Rightarrow> addr \<Rightarrow> card option" where
  "gpg_data_copy s p_start =
     do {
       (p, s1) \<leftarrow> gpg_write_digital_signature_counter s p_start (digital_signature_counter s);
       (p1, s2) \<leftarrow>
         (case pw1_lifetime_p s1 of
            Some a \<Rightarrow> do {
              sa \<leftarrow> flash_bool_write_internal s1 p NR_BOOL_PW1_LIFETIME;
              Some (p + 2, sa\<lparr>pw1_lifetime_p := Some p\<rparr>)
            }
          | None \<Rightarrow> Some (p, s1));
       (p2, s3) \<leftarrow> copy_counters s2 p1 [0..<3];
       (p3, s4) \<leftarrow>
         copy_dos (s3\<lparr>data_objects_number_of_bytes := 0\<rparr>) p2 [unat NR_DO_FIRST..<NR_DO_LAST];
       Some (flash_set_data_pool_last s4 p3)
     }"

section \<open>Scenarios\<close>

text \<open>\<open>n\<close> calls of \<^verbatim>\<open>gpg_increment_digital_signature_counter\<close> in a row.\<close>

fun increment_dsc_n :: "nat \<Rightarrow> card \<Rightarrow> card option" where
  "increment_dsc_n 0 s = Some s"
| "increment_dsc_n (Suc n) s =
     (case gpg_increment_digital_signature_counter s of
        None \<Rightarrow> None
      | Some s1 \<Rightarrow> increment_dsc_n n s1)"

text \<open>
  The card after power-on and before the scan: the static variables are zero-initialised,
  the flash and the key slots are as they were left.
\<close>

definition power_on :: "u8 list \<Rightarrow> u8 list option list \<Rightarrow> card" where
  "power_on fl ks =
     \<lparr>flash = fl, last_p = 0, key_slots = ks,
      do_ptr = replicate NR_DO_LAST None,
      pw_err_counter_p = replicate 3 None,
      pw1_lifetime_p = None,
      digital_signature_counter = 0,
      data_objects_number_of_bytes = 0,
      num_prv_keys = 0,
      kd = replicate 144 0,
      res = [],
      res_APDU = No_response,
      admin_authorized = False,
      pso_cds_authorized = False,
      keystring_md_pw3 = replicate 20 0\<rparr>"

text \<open>
  A concrete environment for the closed instances below. The cipher is a key-stream XOR,
  its own inverse; the hash keeps the first 20 bytes of the padded message. They only
  serve to run the code on concrete inputs.
\<close>

definition xor_stream:: "u8 list \<Rightarrow> u8 list \<Rightarrow> u8 list" where
  "xor_stream k d =
     map (\<lambda>i. d ! i XOR (if k = [] then 0 else k ! (i mod length k))) [0..<length d]"

definition test_env :: env where
  "test_env =
     \<lparr>manufacturer_in_aid = [0xf5, 0x17],
      serial_number_in_aid = [0x00, 0x00, 0x00, 0x01],
      max_cmd_apdu_size = 255,
      max_res_apdu_size = 256,
      gnuk_magic = [0x47, 0x4e, 0x55, 0x4b, 0x4d, 0x61, 0x67, 0x21],
      initial_pw1 = [0x31, 0x32, 0x33, 0x34, 0x35, 0x36],
      aes_cfb128_enc = xor_stream,
      aes_cfb128_dec = xor_stream,
      sha1 = (\<lambda>m. take 20 (m @ replicate 20 0x5a)),
      modulus_calc = (\<lambda>k. Some (replicate 256 0x4d)),
      random_bytes_get = map of_nat [1..<17],
      get_random = 0x01020304,
      malloc_fails = False,
      key_content_len = 128,
      change_keystring = (\<lambda>s who_old old_ks who_new new_ks. Some (0, s))\<rparr>"

text \<open>PUT DATA of a payload followed by GET DATA on the same tag; the result is the response.\<close>

definition put_then_get :: "env \<Rightarrow> card \<Rightarrow> u16 \<Rightarrow> u8 list \<Rightarrow> response option" where
  "put_then_get e s t x =
     do {
       s1 \<leftarrow> gpg_do_put_data e s t x (int (length x));
       s2 \<leftarrow> gpg_do_get_data e s1 t;
       Some (res_APDU s2)
     }"

text \<open>A card with an erased pool of \<open>n\<close> bytes, three free key slots, and PW3 verified.\<close>

definition admin_card :: "nat \<Rightarrow> card" where
  "admin_card n = (power_on (replicate n 0xff) (replicate 3 None))\<lparr>admin_authorized := True\<rparr>"

definition alice :: "u8 list" where
  "alice = [0x61, 0x6c, 0x69, 0x63, 0x65, 0x40, 0x65, 0x78, 0x61, 0x6d, 0x70, 0x6c, 0x65, 0x2e,
            0x74, 0x65, 0x73, 0x74]"

text \<open>
  PUT DATA followed by GET DATA on the same tag; the result is the status of the PUT, the
  pointer table and the flash after it, and the response of the GET.
\<close>

definition put_too_long_then_get ::
  "env \<Rightarrow> card \<Rightarrow> u16 \<Rightarrow> u8 list \<Rightarrow> int \<Rightarrow> (response \<times> addr option list \<times> u8 list \<times> response) option" where
  "put_too_long_then_get e s t data' len =
     do {
       s1 \<leftarrow> gpg_do_put_data e s t data' len;
       s2 \<leftarrow> gpg_do_get_data e s1 t;
       Some (res_APDU s1, do_ptr s1, flash s1, res_APDU s2)
     }"

text \<open>The card after PUT DATA of \<open>abc\<close> on the login-data tag, written out.\<close>

definition card_login_abc :: card where
  "card_login_abc =
     (admin_card 32)\<lparr>flash := [NR_DO_LOGIN_DATA, 3, 0x61, 0x62, 0x63] @ replicate 27 0xff,
                      last_p := 6,
                      do_ptr := (replicate NR_DO_LAST None)[10 := Some 1],
                      res_APDU := Status SW_SUCCESS\<rparr>"

text \<open>
  PUT DATA of a fingerprint on the tag of the third CA fingerprint, then GET DATA on that
  tag and on the tag of all CA fingerprints; the result is the two responses.
\<close>

definition fp_3 :: "u8 list" where
  "fp_3 = [0x01, 0x02, 0x03, 0x04, 0x05, 0x06, 0x07, 0x08, 0x09, 0x0a,
           0x0b, 0x0c, 0x0d, 0x0e, 0x0f, 0x10, 0x11, 0x12, 0x13, 0x14]"

definition put_cafp_3_then_get :: "env \<Rightarrow> card \<Rightarrow> u8 list \<Rightarrow> (response \<times> response) option" where
  "put_cafp_3_then_get e s fp =
     do {
       s1 \<leftarrow> gpg_do_put_data e s GPG_DO_CAFP_3 fp (int (length fp));
       s2 \<leftarrow> gpg_do_get_data e s1 GPG_DO_CAFP_3;
       s3 \<leftarrow> gpg_do_get_data e s1 GPG_DO_CAFP_ALL;
       Some (res_APDU s2, res_APDU s3)
     }"

(*PROPERTIES*)
section \<open>Properties\<close>

subsection \<open>The digital signature counter counts modulo \<open>2 ^ 24\<close>\<close>

lemma flash_put_data_Some:
  "\<exists>s1. flash_put_data s hw = Some s1 \<and> digital_signature_counter s1 = digital_signature_counter s"
  by (auto simp: flash_put_data_def flash_data_pool_allocate_def flash_put_data_internal_def
      flash_program_def poke_n_def hw_bytes_def Let_def split: prod.splits option.splits if_splits)

lemma unat_and_ffffff:
  "unat (((c :: u32) + 1) AND 0x00ffffff) = (unat c + 1) mod 2 ^ 24"
proof -
  have m: "(0x00ffffff :: u32) = mask 24"
    by (simp add: mask_eq_exp_minus_1)
  have "unat ((c + 1) AND 0x00ffffff) = unat (take_bit 24 (c + 1))"
    unfolding m by (simp only: take_bit_eq_mask)
  also have "\<dots> = take_bit 24 (unat (c + 1))"
    by (rule unsigned_take_bit_eq)
  also have "\<dots> = unat (c + 1) mod 2 ^ 24"
    by (rule take_bit_eq_mod)
  also have "unat (c + 1) = (unat c + 1) mod 2 ^ 32"
    by (simp add: unat_word_ariths)
  also have "(unat c + 1) mod 2 ^ 32 mod 2 ^ 24 = (unat c + 1) mod 2 ^ 24"
    by (rule mod_mod_cancel) simp
  finally show ?thesis .
qed

lemma gpg_increment_dsc_Some:
  "\<exists>s1. gpg_increment_digital_signature_counter s = Some s1 \<and>
     unat (digital_signature_counter s1) = (unat (digital_signature_counter s) + 1) mod 2 ^ 24"
proof -
  let ?dsc = "(digital_signature_counter s + 1) AND 0x00ffffff"
  obtain s1 where s1: "flash_put_data s (dsc_hw0 ?dsc) = Some s1"
    using flash_put_data_Some by blast
  obtain s2 where s2: "flash_put_data s1 (ucast NR_COUNTER_DS_LSB) = Some s2"
    using flash_put_data_Some by blast
  obtain s3 where s3: "flash_put_data s (dsc_hw1 ?dsc) = Some s3"
    using flash_put_data_Some by blast
  show ?thesis
    using s1 s2 s3 unat_and_ffffff [of "digital_signature_counter s"]
    by (simp add: gpg_increment_digital_signature_counter_def Let_def)
qed

lemma increment_dsc_n_Some:
  "unat (digital_signature_counter s) < 2 ^ 24 \<Longrightarrow>
   \<exists>s1. increment_dsc_n n s = Some s1 \<and>
     unat (digital_signature_counter s1) = (unat (digital_signature_counter s) + n) mod 2 ^ 24"
proof (induction n arbitrary: s)
  case 0
  then show ?case by simp
next
  case (Suc n)
  obtain s1 where s1: "gpg_increment_digital_signature_counter s = Some s1"
    and c1: "unat (digital_signature_counter s1) = (unat (digital_signature_counter s) + 1) mod 2 ^ 24"
    using gpg_increment_dsc_Some by blast
  have "unat (digital_signature_counter s1) < 2 ^ 24"
    by (simp add: c1)
  from Suc.IH [OF this] obtain s2 where s2: "increment_dsc_n n s1 = Some s2"
    and c2: "unat (digital_signature_counter s2) = (unat (digital_signature_counter s1) + n) mod 2 ^ 24"
    by blast
  have "((unat (digital_signature_counter s) + 1) mod 2 ^ 24 + n) mod 2 ^ 24
        = (unat (digital_signature_counter s) + Suc n) mod 2 ^ 24"
    by (simp add: mod_add_left_eq)
  with s1 s2 c1 c2 show ?case by simp
qed

lemma get_do_entry_ds_count:
  "get_do_entry e GPG_DO_DS_COUNT = Some (entry GPG_DO_DS_COUNT DO_PROC_READ AC_ALWAYS AC_NEVER (Obj_read F_do_ds_count))"
  by (simp add: get_do_entry_def gpg_do_table_def entry_def)

lemma unat_and_ff: "unat ((w :: u32) AND 0xff) = unat w mod 256"
proof -
  have m: "(0xff :: u32) = mask 8" by (simp add: mask_eq_exp_minus_1)
  have "unat (w AND 0xff) = unat (take_bit 8 w)"
    unfolding m by (simp only: take_bit_eq_mask)
  also have "\<dots> = take_bit 8 (unat w)" by (rule unsigned_take_bit_eq)
  also have "\<dots> = unat w mod 256" by (simp add: take_bit_eq_mod)
  finally show ?thesis .
qed

lemma unat_ucast_and_ff: "unat (ucast ((w :: u32) AND 0xff) :: u8) = unat w mod 256"
  by (simp add: unsigned_ucast_eq take_bit_eq_mod unat_and_ff)

lemma unat_drop_bit_div: "unat (drop_bit n (w :: u32)) = unat w div 2 ^ n"
  by (subst unat_drop_bit_eq) (rule drop_bit_eq_div)

lemma three_bytes_nat:
  fixes x :: nat
  shows "x div 65536 * 65536 + x div 256 mod 256 * 256 + x mod 256 = x"
proof -
  have c: "x div 256 div 256 = x div 65536"
    by (simp add: div_mult2_eq)
  have "x div 65536 * 65536 + x div 256 mod 256 * 256 + x mod 256
        = (x div 256 div 256 * 256 + x div 256 mod 256) * 256 + x mod 256"
    unfolding c by (simp add: add_mult_distrib)
  also have "\<dots> = x div 256 * 256 + x mod 256"
    by (simp only: div_mult_mod_eq)
  also have "\<dots> = x"
    by (simp only: div_mult_mod_eq)
  finally show ?thesis .
qed

lemma dsc_big_endian:
  fixes c :: u32
  assumes "unat c < 2 ^ 24"
  shows "unat (ucast (drop_bit 16 c AND 0xff) :: u8) * 65536
         + unat (ucast (drop_bit 8 c AND 0xff) :: u8) * 256
         + unat (ucast (c AND 0xff) :: u8) = unat c"
proof -
  have "unat c div 65536 < 256"
    using assms by simp
  then show ?thesis
    using three_bytes_nat [of "unat c"] by (simp add: unat_ucast_and_ff unat_drop_bit_div)
qed

lemma get_ds_count:
  "\<exists>s1. gpg_do_get_data e s GPG_DO_DS_COUNT = Some s1 \<and>
     res_APDU s1 = Body [ucast (drop_bit 16 (digital_signature_counter s) AND 0xff),
                        ucast (drop_bit 8 (digital_signature_counter s) AND 0xff),
                        ucast (digital_signature_counter s AND 0xff), 0x90, 0x00]"
  by (simp add: gpg_do_get_data_def get_do_entry_ds_count copy_do.simps entry_def
      ac_check_status_def do_func_def do_ds_count_def put_res_def Let_def)

text \<open>
  C4. Starting from a 24-bit counter value \<open>c0\<close>, \<open>n\<close> increments all return, and leave the
  counter at \<open>(c0 + n) mod 2 ^ 24\<close>; GET DATA on the DS-counter tag \<open>0x93\<close> then answers
  with three bytes, most significant first, that encode this value, followed by
  \<open>90 00\<close>.
\<close>

theorem dsc_after_n_increments:
  assumes "unat (digital_signature_counter s) < 2 ^ 24"
  shows "\<exists>s1 s2 b2 b1 b0.
           increment_dsc_n n s = Some s1
         \<and> unat (digital_signature_counter s1) = (unat (digital_signature_counter s) + n) mod 2 ^ 24
         \<and> gpg_do_get_data e s1 GPG_DO_DS_COUNT = Some s2
         \<and> res_APDU s2 = Body [b2, b1, b0, 0x90, 0x00]
         \<and> unat b2 * 65536 + unat b1 * 256 + unat b0
             = (unat (digital_signature_counter s) + n) mod 2 ^ 24"
proof -
  obtain s1 where s1: "increment_dsc_n n s = Some s1"
    and c1: "unat (digital_signature_counter s1) = (unat (digital_signature_counter s) + n) mod 2 ^ 24"
    using increment_dsc_n_Some [OF assms] by blast
  have lt: "unat (digital_signature_counter s1) < 2 ^ 24"
    by (simp add: c1)
  obtain s2 where s2: "gpg_do_get_data e s1 GPG_DO_DS_COUNT = Some s2"
    and r2: "res_APDU s2 = Body [ucast (drop_bit 16 (digital_signature_counter s1) AND 0xff),
                        ucast (drop_bit 8 (digital_signature_counter s1) AND 0xff),
                        ucast (digital_signature_counter s1 AND 0xff), 0x90, 0x00]"
    using get_ds_count by blast
  show ?thesis
    using s1 c1 s2 r2 dsc_big_endian [OF lt] by (intro exI conjI) simp_all
qed

lemma power_on_dsc: "digital_signature_counter (power_on fl ks) = 0"
  by (simp add: power_on_def)

theorem dsc_after_n_increments_witness:
  "unat (digital_signature_counter (power_on (replicate 8 0xff) [])) < 2 ^ 24
   \<and> (\<exists>s1 s2 b2 b1 b0.
           increment_dsc_n 3 (power_on (replicate 8 0xff) []) = Some s1
         \<and> unat (digital_signature_counter s1) = 3
         \<and> gpg_do_get_data test_env s1 GPG_DO_DS_COUNT = Some s2
         \<and> res_APDU s2 = Body [b2, b1, b0, 0x90, 0x00]
         \<and> unat b2 * 65536 + unat b1 * 256 + unat b0 = 3)"
proof -
  have h: "unat (digital_signature_counter (power_on (replicate 8 0xff) [])) < 2 ^ 24"
    by (simp add: power_on_dsc)
  show ?thesis
    using h dsc_after_n_increments [OF h, of 3 test_env] by (simp add: power_on_dsc)
qed

subsection \<open>PUT DATA and GET DATA on the variable data objects\<close>

lemma var_entry:
  assumes "get_do_entry e t = Some d" "do_type d = DO_VAR"
  shows "\<exists>i nr. d = entry t DO_VAR AC_ALWAYS AC_ADMIN_AUTHORIZED (Obj_do_ptr i)
           \<and> do_tag_to_nr t = Some nr \<and> do_index nr = Some i \<and> i < NR_DO_LAST"
  using assms
  by (auto simp: get_do_entry_def gpg_do_table_def entry_def do_tag_to_nr_def do_index_def
      split: if_splits)

lemma flash_do_release_Some:
  assumes "0 < a" "a + 1 \<le> length (flash s)"
  shows "flash_do_release s a
         = Some (s\<lparr>flash := take (a - 1) (flash s) @ [0, 0] @ drop (a + 1) (flash s)\<rparr>)"
  using assms by (simp add: flash_do_release_def flash_program_def poke_n_def)

lemma flash_do_write_Some:
  assumes "last_p s + (2 + length x + (2 + length x) mod 2) \<le> length (flash s)"
  shows "flash_do_write s nr x
         = Some (Some (last_p s + 1),
                 s\<lparr>last_p := last_p s + (2 + length x + (2 + length x) mod 2),
                   flash := take (last_p s) (flash s) @ ([nr, of_nat (length x)] @ x)
                            @ drop (last_p s + (2 + length x)) (flash s)\<rparr>)"
  using assms
  by (simp add: flash_do_write_def flash_data_pool_allocate_def flash_do_write_internal_def
      flash_program_def poke_n_def Let_def add.assoc)

lemma read_back_cell:
  assumes "p \<le> length fl"
  shows "drop (p + 1) (take p fl @ ([nr, l] @ x) @ rest) = l # x @ rest"
  using assms by simp

lemma get_var_Some:
  assumes "get_do_entry e t = Some (entry t DO_VAR AC_ALWAYS w (Obj_do_ptr i))"
    and "i < length (do_ptr s)" "do_ptr s ! i = Some a"
    and "drop a (flash s) = l # x @ rest" "unat l = length x"
  shows "\<exists>s2. gpg_do_get_data e s t = Some s2 \<and> res_APDU s2 = Body (x @ [0x90, 0x00])"
  using assms
  by (simp add: gpg_do_get_data_def copy_do.simps entry_def ac_check_status_def
      do_ptr_get_def copy_do_1_def put_res_def Let_def)

lemma get_var_None:
  assumes "get_do_entry e t = Some (entry t DO_VAR AC_ALWAYS w (Obj_do_ptr i))"
    and "i < length (do_ptr s)" "do_ptr s ! i = None"
  shows "\<exists>s2. gpg_do_get_data e s t = Some s2 \<and> res_APDU s2 = Body [0x90, 0x00]"
  using assms
  by (simp add: gpg_do_get_data_def copy_do.simps entry_def ac_check_status_def
      do_ptr_get_def put_res_def Let_def)

lemma release_old:
  assumes "i < length (do_ptr s)"
    and "\<And>a. do_ptr s ! i = Some a \<Longrightarrow> 0 < a \<and> a + 1 \<le> length (flash s)"
  shows "\<exists>s1. (case do_ptr s ! i of Some a \<Rightarrow> flash_do_release s a | None \<Rightarrow> Some s) = Some s1
            \<and> length (flash s1) = length (flash s) \<and> last_p s1 = last_p s
            \<and> do_ptr s1 = do_ptr s \<and> admin_authorized s1 = admin_authorized s"
proof (cases "do_ptr s ! i")
  case None
  then show ?thesis by simp
next
  case (Some a)
  with assms(2) have a: "0 < a" "a + 1 \<le> length (flash s)" by auto
  show ?thesis
    using Some a by (simp add: flash_do_release_Some)
qed

lemma put_var:
  assumes ent: "get_do_entry e t = Some (entry t DO_VAR AC_ALWAYS AC_ADMIN_AUTHORIZED (Obj_do_ptr i))"
    and nr: "do_tag_to_nr t = Some nr"
    and adm: "admin_authorized s"
    and len: "length x \<le> 255"
    and arr: "i < length (do_ptr s)"
    and old: "\<And>a. do_ptr s ! i = Some a \<Longrightarrow> 0 < a \<and> a + 1 \<le> length (flash s)"
    and room: "x \<noteq> [] \<Longrightarrow> last_p s + 2 + length x + length x mod 2 \<le> length (flash s)"
  shows "\<exists>s1. gpg_do_put_data e s t x (int (length x)) = Some s1
           \<and> i < length (do_ptr s1)
           \<and> (if x = [] then do_ptr s1 ! i = None
               else res_APDU s1 = Status SW_SUCCESS \<and> do_ptr s1 ! i = Some (last_p s + 1)
                    \<and> (\<exists>rest. drop (last_p s + 1) (flash s1) = of_nat (length x) # x @ rest))"
proof -
  obtain s1 where s1: "(case do_ptr s ! i of Some a \<Rightarrow> flash_do_release s a | None \<Rightarrow> Some s) = Some s1"
    and fl: "length (flash s1) = length (flash s)" and lp: "last_p s1 = last_p s"
    and dp: "do_ptr s1 = do_ptr s" and ad: "admin_authorized s1 = admin_authorized s"
    using release_old [OF arr old] by blast
  show ?thesis
  proof (cases "x = []")
    case True
    then show ?thesis
      using ent adm arr s1 dp
      by (simp add: gpg_do_put_data_def entry_def ac_check_status_def do_ptr_get_def
          do_ptr_set_def)
  next
    case False
    then have pos: "0 < length x" by simp
    have r: "last_p s1 + (2 + length x + (2 + length x) mod 2) \<le> length (flash s1)"
      using room [OF False] by (simp add: fl lp)
    have lpl: "last_p s1 \<le> length (flash s1)"
      using r by simp
    show ?thesis
      using ent adm arr s1 dp nr len pos False lp lpl
      by (simp add: gpg_do_put_data_def entry_def ac_check_status_def do_ptr_get_def
          do_ptr_set_def flash_do_write_Some [OF r] set_status_def min_absorb2)
  qed
qed

lemma put_get_var_aux:
  assumes ent: "get_do_entry e t = Some d" "do_type d = DO_VAR"
    and adm: "admin_authorized s"
    and len: "length x \<le> 255"
    and arr: "length (do_ptr s) = NR_DO_LAST"
    and old: "\<And>a. Some a \<in> set (do_ptr s) \<Longrightarrow> 0 < a \<and> a + 1 \<le> length (flash s)"
    and room: "x \<noteq> [] \<Longrightarrow> last_p s + 2 + length x + length x mod 2 \<le> length (flash s)"
  shows "\<exists>s1 s2. gpg_do_put_data e s t x (int (length x)) = Some s1
           \<and> gpg_do_get_data e s1 t = Some s2
           \<and> res_APDU s2 = Body (x @ [0x90, 0x00])"
proof -
  obtain i nr where d: "d = entry t DO_VAR AC_ALWAYS AC_ADMIN_AUTHORIZED (Obj_do_ptr i)"
    and nr: "do_tag_to_nr t = Some nr" and i: "i < NR_DO_LAST"
    using var_entry [OF ent] by blast
  have arr': "i < length (do_ptr s)" using i arr by simp
  have old': "\<And>a. do_ptr s ! i = Some a \<Longrightarrow> 0 < a \<and> a + 1 \<le> length (flash s)"
    using old arr' by (metis nth_mem)
  obtain s1 where s1: "gpg_do_put_data e s t x (int (length x)) = Some s1"
    and i1: "i < length (do_ptr s1)"
    and p1: "if x = [] then do_ptr s1 ! i = None
               else res_APDU s1 = Status SW_SUCCESS \<and> do_ptr s1 ! i = Some (last_p s + 1)
                    \<and> (\<exists>rest. drop (last_p s + 1) (flash s1) = of_nat (length x) # x @ rest)"
    using put_var [OF ent(1) [unfolded d] nr adm len arr' old' room] by blast
  show ?thesis
  proof (cases "x = []")
    case True
    with p1 have "do_ptr s1 ! i = None" by simp
    from get_var_None [OF ent(1) [unfolded d] i1 this] s1 True show ?thesis by auto
  next
    case False
    with p1 obtain rest where pp: "do_ptr s1 ! i = Some (last_p s + 1)"
      and dr: "drop (last_p s + 1) (flash s1) = of_nat (length x) # x @ rest" by auto
    have u: "unat (of_nat (length x) :: u8) = length x"
      using len by (simp add: unat_of_nat)
    from get_var_Some [OF ent(1) [unfolded d] i1 pp dr u] s1 show ?thesis by auto
  qed
qed

lemma admin_card_simps:
  "admin_authorized (admin_card n)" "length (do_ptr (admin_card n)) = NR_DO_LAST"
  "set (do_ptr (admin_card n)) = {None}" "last_p (admin_card n) = 0"
  "length (flash (admin_card n)) = n"
  by (simp_all add: admin_card_def power_on_def)

lemma login_data_entry:
  "get_do_entry e GPG_DO_LOGIN_DATA
   = Some (entry GPG_DO_LOGIN_DATA DO_VAR AC_ALWAYS AC_ADMIN_AUTHORIZED (Obj_do_ptr 10))"
  by (simp add: get_do_entry_def gpg_do_table_def entry_def)

text \<open>
  C1, as stated, fails: after PUT DATA of the 18 bytes \<open>alice@example.test\<close> on the login-data
  tag \<open>0x5E\<close>, GET DATA does not answer \<open>5E 12\<close>, the 18 bytes and \<open>90 00\<close>.
\<close>

theorem get_data_has_no_tag_counterexample:
  "put_then_get test_env (admin_card 32) GPG_DO_LOGIN_DATA alice
   \<noteq> Some (Body ([0x5e, 0x12] @ alice @ [0x90, 0x00]))"
proof -
  have "\<exists>s1 s2. gpg_do_put_data test_env (admin_card 32) GPG_DO_LOGIN_DATA alice (int (length alice)) = Some s1
           \<and> gpg_do_get_data test_env s1 GPG_DO_LOGIN_DATA = Some s2
           \<and> res_APDU s2 = Body (alice @ [0x90, 0x00])"
    by (rule put_get_var_aux [OF login_data_entry])
       (simp_all add: admin_card_simps entry_def alice_def)
  then show ?thesis
    by (auto simp: put_then_get_def)
qed

text \<open>
  C1, amended. For every tag of kind \<open>VAR\<close> and every payload \<open>x\<close> of at most 255 bytes: when
  PW3 is verified, the pointers in use address cells inside the pool and a non-empty \<open>x\<close>
  still fits at the tail, PUT DATA followed by GET DATA returns, and the response is the
  bytes of \<open>x\<close> followed by \<open>90 00\<close>, without the tag and without a length byte
  (\<^verbatim>\<open>gpg_do_get_data\<close> passes \<^verbatim>\<open>with_tag = 0\<close>).
\<close>

theorem put_get_var:
  assumes "get_do_entry e t = Some d" "do_type d = DO_VAR"
    and "admin_authorized s"
    and "length x \<le> 255"
    and "length (do_ptr s) = NR_DO_LAST"
    and "\<And>a. Some a \<in> set (do_ptr s) \<Longrightarrow> 0 < a \<and> a + 1 \<le> length (flash s)"
    and "x \<noteq> [] \<Longrightarrow> last_p s + 2 + length x + length x mod 2 \<le> length (flash s)"
  shows "put_then_get e s t x = Some (Body (x @ [0x90, 0x00]))"
  using put_get_var_aux [OF assms] by (auto simp: put_then_get_def)

theorem put_get_var_witness:
  "get_do_entry test_env GPG_DO_LOGIN_DATA
     = Some (entry GPG_DO_LOGIN_DATA DO_VAR AC_ALWAYS AC_ADMIN_AUTHORIZED (Obj_do_ptr 10))
   \<and> admin_authorized (admin_card 32) \<and> length alice = 18
   \<and> last_p (admin_card 32) + 2 + length alice + length alice mod 2 \<le> length (flash (admin_card 32))
   \<and> put_then_get test_env (admin_card 32) GPG_DO_LOGIN_DATA alice
       = Some (Body ([0x61, 0x6c, 0x69, 0x63, 0x65, 0x40, 0x65, 0x78, 0x61, 0x6d, 0x70, 0x6c,
                      0x65, 0x2e, 0x74, 0x65, 0x73, 0x74, 0x90, 0x00]))"
proof -
  have "put_then_get test_env (admin_card 32) GPG_DO_LOGIN_DATA alice
        = Some (Body (alice @ [0x90, 0x00]))"
    by (rule put_get_var [OF login_data_entry])
       (simp_all add: admin_card_simps entry_def alice_def)
  then show ?thesis
    by (simp add: login_data_entry admin_card_simps alice_def)
qed

lemma put_var_too_long:
  assumes ent: "get_do_entry e t = Some (entry t DO_VAR AC_ALWAYS AC_ADMIN_AUTHORIZED (Obj_do_ptr i))"
    and adm: "admin_authorized s"
    and arr: "i < length (do_ptr s)"
    and cur: "do_ptr s ! i = Some a" "0 < a" "a + 1 \<le> length (flash s)"
    and len: "255 < len"
  shows "gpg_do_put_data e s t data' len
         = Some (s\<lparr>flash := take (a - 1) (flash s) @ [0, 0] @ drop (a + 1) (flash s),
                   res_APDU := Status SW_MEMORY_FAILURE\<rparr>)"
  using assms
  by (simp add: gpg_do_put_data_def entry_def ac_check_status_def do_ptr_get_def
      flash_do_release_Some set_status_def)

lemma drop_released:
  assumes "0 < a" "a + 1 \<le> length fl"
  shows "drop a (take (a - 1) fl @ [0, 0] @ drop (a + 1) fl) = (0 :: u8) # [] @ drop (a + 1) fl"
  using assms by (simp add: min_absorb2)

lemma peek_released:
  assumes "0 < a" "a + 1 \<le> length fl"
  shows "peek_n (take (a - 1) fl @ [0, 0] @ drop (a + 1) fl) (a - 1) 2 = Some [0 :: u8, 0]"
  using assms by (simp add: peek_n_def min_absorb2)

text \<open>
  C10. PUT DATA on a \<open>VAR\<close> tag that holds a value, with a length above 255: the status is
  memory failure, the header of the old cell has been overwritten with \<open>00 00\<close>, the
  pointer table is unchanged, so the entry still addresses the released cell, and the
  following GET DATA reads the length byte of that released cell and answers an empty body:
  the old value is lost.
\<close>

theorem put_too_long_is_not_atomic:
  assumes "get_do_entry e t = Some d" "do_type d = DO_VAR" "obj d = Obj_do_ptr i"
    and "admin_authorized s"
    and "length (do_ptr s) = NR_DO_LAST"
    and "do_ptr s ! i = Some a" "0 < a" "a + 1 \<le> length (flash s)"
    and "255 < len"
  shows "put_too_long_then_get e s t data' len
         = Some (Status SW_MEMORY_FAILURE, do_ptr s,
                 take (a - 1) (flash s) @ [0, 0] @ drop (a + 1) (flash s),
                 Body [0x90, 0x00])"
proof -
  obtain j nr where d: "d = entry t DO_VAR AC_ALWAYS AC_ADMIN_AUTHORIZED (Obj_do_ptr j)"
    and j: "j < NR_DO_LAST"
    using var_entry [OF assms(1,2)] by blast
  have ij: "j = i" using d assms(3) by (simp add: entry_def)
  have arr: "i < length (do_ptr s)" using j ij assms(5) by simp
  let ?s1 = "s\<lparr>flash := take (a - 1) (flash s) @ [0, 0] @ drop (a + 1) (flash s),
                 res_APDU := Status SW_MEMORY_FAILURE\<rparr>"
  have p: "gpg_do_put_data e s t data' len = Some ?s1"
    using put_var_too_long [OF assms(1) [unfolded d ij] assms(4) arr assms(6-9)] .
  have "\<exists>s2. gpg_do_get_data e ?s1 t = Some s2 \<and> res_APDU s2 = Body ([] @ [0x90, 0x00])"
    by (rule get_var_Some [OF assms(1) [unfolded d ij], where a = a and l = 0])
       (use arr assms(6-8) in \<open>simp_all add: min_absorb2\<close>)
  then show ?thesis
    using p by (auto simp: put_too_long_then_get_def)
qed

lemma card_login_abc_put:
  "gpg_do_put_data test_env (admin_card 32) GPG_DO_LOGIN_DATA [0x61, 0x62, 0x63] 3
   = Some card_login_abc"
  by (simp add: gpg_do_put_data_def login_data_entry entry_def ac_check_status_def
      admin_card_def power_on_def do_ptr_get_def do_ptr_set_def do_tag_to_nr_def
      flash_do_write_def flash_data_pool_allocate_def flash_do_write_internal_def
      flash_program_def poke_n_def set_status_def card_login_abc_def Let_def)

lemma card_login_abc_get:
  "\<exists>s2. gpg_do_get_data test_env card_login_abc GPG_DO_LOGIN_DATA = Some s2
        \<and> res_APDU s2 = Body [0x61, 0x62, 0x63, 0x90, 0x00]"
  by (simp add: gpg_do_get_data_def login_data_entry entry_def copy_do.simps
      ac_check_status_def card_login_abc_def admin_card_def power_on_def do_ptr_get_def
      copy_do_1_def put_res_def Let_def)

theorem put_too_long_is_not_atomic_witness:
  "do_ptr card_login_abc ! 10 = Some 1
   \<and> put_too_long_then_get test_env card_login_abc GPG_DO_LOGIN_DATA (replicate 256 0x41) 256
       = Some (Status SW_MEMORY_FAILURE, do_ptr card_login_abc,
               [0, 0, 0x61, 0x62, 0x63] @ replicate 27 0xff, Body [0x90, 0x00])"
proof -
  have c: "do_ptr card_login_abc ! 10 = Some 1" "admin_authorized card_login_abc"
    "length (do_ptr card_login_abc) = NR_DO_LAST" "1 + 1 \<le> length (flash card_login_abc)"
    "flash card_login_abc = [NR_DO_LOGIN_DATA, 3, 0x61, 0x62, 0x63] @ replicate 27 0xff"
    by (simp_all add: card_login_abc_def admin_card_def power_on_def)
  have e: "do_type (entry GPG_DO_LOGIN_DATA DO_VAR AC_ALWAYS AC_ADMIN_AUTHORIZED (Obj_do_ptr 10)) = DO_VAR"
    "obj (entry GPG_DO_LOGIN_DATA DO_VAR AC_ALWAYS AC_ADMIN_AUTHORIZED (Obj_do_ptr 10)) = Obj_do_ptr 10"
    by (simp_all add: entry_def)
  show ?thesis
    using put_too_long_is_not_atomic [OF login_data_entry e c(2) c(3) c(1) _ c(4),
        of 256 test_env "replicate 256 0x41"] c(1)
    by (simp add: c(5))
qed

subsection \<open>Read access NEVER\<close>

text \<open>
  C8. For every entry of the catalog whose read access is \<open>NEVER\<close>, GET DATA on its tag
  answers security failure, in every state of the card, whatever the authentication
  status. The entries are the resetting code, key import and the cardholder certificate.
\<close>

theorem read_never_is_security_failure:
  "(\<forall>d \<in> set (gpg_do_table e). ac_read d = AC_NEVER \<longrightarrow>
      (\<exists>s1. gpg_do_get_data e s (tag d) = Some s1 \<and> res_APDU s1 = Status SW_SECURITY_FAILURE))
   \<and> map tag (filter (\<lambda>d. ac_read d = AC_NEVER) (gpg_do_table e))
       = [GPG_DO_RESETTING_CODE, GPG_DO_KEY_IMPORT, GPG_DO_CH_CERTIFICATE]"
  by (simp add: gpg_do_table_def entry_def gpg_do_get_data_def get_do_entry_def copy_do.simps
      ac_check_status_def)

theorem read_never_is_security_failure_witness:
  "entry GPG_DO_KEY_IMPORT DO_PROC_WRITE AC_NEVER AC_ADMIN_AUTHORIZED (Obj_proc F_proc_key_import)
     \<in> set (gpg_do_table test_env)
   \<and> (\<exists>s1. gpg_do_get_data test_env (admin_card 32) GPG_DO_KEY_IMPORT = Some s1
          \<and> res_APDU s1 = Status SW_SECURITY_FAILURE)"
proof -
  let ?d = "entry GPG_DO_KEY_IMPORT DO_PROC_WRITE AC_NEVER AC_ADMIN_AUTHORIZED (Obj_proc F_proc_key_import)"
  have m: "?d \<in> set (gpg_do_table test_env)"
    by (simp add: gpg_do_table_def)
  have n: "ac_read ?d = AC_NEVER" "tag ?d = GPG_DO_KEY_IMPORT"
    by (simp_all add: entry_def)
  show ?thesis
    using read_never_is_security_failure [of test_env "admin_card 32"] m n by auto
qed

subsection \<open>All CA fingerprints\<close>

lemma cafp_entries:
  "get_do_entry e GPG_DO_CAFP_3
   = Some (entry GPG_DO_CAFP_3 DO_VAR AC_ALWAYS AC_ADMIN_AUTHORIZED (Obj_do_ptr 6))"
  "get_do_entry e GPG_DO_CAFP_ALL
   = Some (entry GPG_DO_CAFP_ALL DO_PROC_READ AC_ALWAYS AC_NEVER (Obj_read F_do_cafp_all))"
  by (simp_all add: get_do_entry_def gpg_do_table_def entry_def)

text \<open>
  C6 on the code: with the third CA fingerprint stored (and read back by GET DATA on
  \<open>0xCC\<close>) and the first two absent, GET DATA on \<open>0xC6\<close> answers 60 zero bytes: the third
  block is filled from the second fingerprint a second time, not from the third.
\<close>

theorem cafp_all_repeats_cafp_2:
  "put_cafp_3_then_get test_env (admin_card 32) fp_3
   = Some (Body (fp_3 @ [0x90, 0x00]), Body (replicate 60 0 @ [0x90, 0x00]))"
  by (simp add: put_cafp_3_then_get_def gpg_do_put_data_def gpg_do_get_data_def cafp_entries
      entry_def copy_do.simps ac_check_status_def admin_card_def power_on_def do_ptr_get_def
      do_ptr_set_def do_tag_to_nr_def flash_do_write_def flash_data_pool_allocate_def
      flash_do_write_internal_def flash_program_def poke_n_def set_status_def copy_do_1_def
      put_res_def do_func_def do_cafp_all_def copy_simple_or_zero_def gpg_do_read_simple_def
      do_index_def fp_3_def Let_def flip: replicate_add)

end
